theory Spec2Isabelle
  imports Main "HOL-Library.Word" "HOL-Library.Multiset" "HOL-Library.List_Lexorder"
begin

unbundle bit_operations_syntax

section \<open>Strings and the string functions of the platform\<close>

text \<open>
  The client (\<^verbatim>\<open>sts_client.ts\<close>) is TypeScript on Deno. A JavaScript string is modelled by
  a \<^typ>\<open>string\<close>: the list of the bytes of its UTF-8 encoding, so an ASCII character is
  one \<^typ>\<open>char\<close> and any other character is two to four of them. (A string with a lone
  surrogate has no UTF-8 encoding and is not modelled.) \<^verbatim>\<open>encodeURIComponent\<close>,
  \<^verbatim>\<open>TextEncoder.encode\<close>, \<^verbatim>\<open>trim\<close> and \<^verbatim>\<open>startsWith\<close> are defined for every string.
  \<^verbatim>\<open>toLowerCase\<close> is defined on the ASCII strings, and \<^verbatim>\<open>localeCompare\<close> on none: what they
  do besides is the platform's (the case mapping of Unicode, the collation of the locale
  the runtime is started in), and is a parameter of the model.
\<close>

definition newline :: string where
  "newline = [CHR 0x0A]"

text \<open>
  The platform: \<open>lowerCase\<close> is \<^verbatim>\<open>toLowerCase\<close> on the strings that are not ASCII, and
  \<open>sortKey\<close> gives the sort key of a string in the collation of the locale, a sequence of
  weights. Sort keys are compared lexicographically, and \<^verbatim>\<open>a.localeCompare(b)\<close> is the
  result of comparing the sort keys of \<^verbatim>\<open>a\<close> and \<^verbatim>\<open>b\<close>: two strings compare equal when they
  have the same sort key.
\<close>

record platform =
  lowerCase :: "string \<Rightarrow> string"
  sortKey :: "string \<Rightarrow> nat list"

definition is_ascii :: "string \<Rightarrow> bool" where
  "is_ascii s = list_all (\<lambda>c. (of_char c :: nat) < 128) s"

text \<open>
  \<^verbatim>\<open>s.toLowerCase()\<close>: in an ASCII string the letters A to Z become a to z; it does not
  depend on the locale.
\<close>

definition lower_char :: "char \<Rightarrow> char" where
  "lower_char c =
     (case map_of (zip ''ABCDEFGHIJKLMNOPQRSTUVWXYZ'' ''abcdefghijklmnopqrstuvwxyz'') c of
        Some d \<Rightarrow> d
      | None \<Rightarrow> c)"

definition toLowerCase :: "platform \<Rightarrow> string \<Rightarrow> string" where
  "toLowerCase pf s = (if is_ascii s then map lower_char s else lowerCase pf s)"

text \<open>\<^verbatim>\<open>s.startsWith(p)\<close>.\<close>

definition startsWith :: "string \<Rightarrow> string \<Rightarrow> bool" where
  "startsWith s p = (take (length p) s = p)"

text \<open>
  \<^verbatim>\<open>s.trim()\<close> removes the white space and the line terminators at both ends. These are
  the code points U+0009 to U+000D, U+0020, U+00A0, U+1680, U+2000 to U+200A, U+2028,
  U+2029, U+202F, U+205F, U+3000 and U+FEFF, here in UTF-8. In well-formed UTF-8 a string
  starts or ends with the bytes of a code point only if that code point is its first or
  last one.
\<close>

definition white_space :: "string list" where
  "white_space =
     [[CHR 0x09], [CHR 0x0A], [CHR 0x0B], [CHR 0x0C], [CHR 0x0D], [CHR 0x20],
      [CHR 0xC2, CHR 0xA0],
      [CHR 0xE1, CHR 0x9A, CHR 0x80],
      [CHR 0xE2, CHR 0x80, CHR 0x80], [CHR 0xE2, CHR 0x80, CHR 0x81],
      [CHR 0xE2, CHR 0x80, CHR 0x82], [CHR 0xE2, CHR 0x80, CHR 0x83],
      [CHR 0xE2, CHR 0x80, CHR 0x84], [CHR 0xE2, CHR 0x80, CHR 0x85],
      [CHR 0xE2, CHR 0x80, CHR 0x86], [CHR 0xE2, CHR 0x80, CHR 0x87],
      [CHR 0xE2, CHR 0x80, CHR 0x88], [CHR 0xE2, CHR 0x80, CHR 0x89],
      [CHR 0xE2, CHR 0x80, CHR 0x8A],
      [CHR 0xE2, CHR 0x80, CHR 0xA8], [CHR 0xE2, CHR 0x80, CHR 0xA9],
      [CHR 0xE2, CHR 0x80, CHR 0xAF],
      [CHR 0xE2, CHR 0x81, CHR 0x9F],
      [CHR 0xE3, CHR 0x80, CHR 0x80],
      [CHR 0xEF, CHR 0xBB, CHR 0xBF]]"

text \<open>
  Removing the white space at the start: at most as many times as the string has bytes.
  At the end it is the same on the reversed string, with the reversed encodings.
\<close>

fun strip_prefixes :: "string list \<Rightarrow> nat \<Rightarrow> string \<Rightarrow> string" where
  "strip_prefixes ws 0 s = s"
| "strip_prefixes ws (Suc n) s =
     (case find (\<lambda>w. startsWith s w) ws of
        None \<Rightarrow> s
      | Some w \<Rightarrow> strip_prefixes ws n (drop (length w) s))"

definition trimStart :: "string \<Rightarrow> string" where
  "trimStart s = strip_prefixes white_space (length s) s"

definition trimEnd :: "string \<Rightarrow> string" where
  "trimEnd s = rev (strip_prefixes (map rev white_space) (length s) (rev s))"

definition trim :: "string \<Rightarrow> string" where
  "trim s = trimEnd (trimStart s)"

text \<open>\<^verbatim>\<open>xs.join(sep)\<close> on an array of strings.\<close>

fun join :: "string \<Rightarrow> string list \<Rightarrow> string" where
  "join sep [] = []"
| "join sep [x] = x"
| "join sep (x # y # ys) = x @ sep @ join sep (y # ys)"

text \<open>
  \<^verbatim>\<open>encodeURIComponent(s)\<close>: every byte of the UTF-8 encoding is written as \<^verbatim>\<open>%XX\<close> with
  upper-case hexadecimal digits, except the unreserved characters
  \<^verbatim>\<open>A-Z a-z 0-9 - _ . ! ~ * ' ( )\<close>. (It throws \<^verbatim>\<open>URIError\<close> on a lone surrogate, which no
  UTF-8 string holds.)
\<close>

definition uri_unreserved :: "char \<Rightarrow> bool" where
  "uri_unreserved c =
     (c \<in> set (''ABCDEFGHIJKLMNOPQRSTUVWXYZabcdefghijklmnopqrstuvwxyz0123456789''
                @ ''-_.!~*()'' @ [CHR 0x27]))"

definition upperHexDigit :: "nat \<Rightarrow> char" where
  "upperHexDigit n = ''0123456789ABCDEF'' ! n"

definition percent_encode :: "char \<Rightarrow> string" where
  "percent_encode c =
     [CHR ''%'', upperHexDigit (of_char c div 16), upperHexDigit (of_char c mod 16)]"

definition encodeURIComponent :: "string \<Rightarrow> string" where
  "encodeURIComponent s =
     concat (map (\<lambda>c. if uri_unreserved c then [c] else percent_encode c) s)"

text \<open>
  The conversion of a number to a string in a template literal. For an integer from 0
  below \<open>10\<^sup>2\<^sup>1\<close>, as a status code, a length and the milliseconds of the clock are, it is
  the decimal digits.
\<close>

fun decimal :: "nat \<Rightarrow> string" where
  "decimal n =
     (if n < 10 then [''0123456789'' ! n]
      else decimal (n div 10) @ [''0123456789'' ! (n mod 10)])"

declare decimal.simps [simp del]

text \<open>
  Of any other number (\<^verbatim>\<open>durationSeconds\<close>, a number in a JSON value) the client uses
  nothing but this conversion. Such a number is represented by the text the conversion
  gives for it: \<open>Number ''3600''\<close> is 3600, \<open>Number ''1e+21''\<close> is \<open>10\<^sup>2\<^sup>1\<close>,
  \<open>Number ''0.5''\<close> is one half.
\<close>

datatype number = Number (Number_toString: string)

subsection \<open>\<^verbatim>\<open>localeCompare\<close>\<close>

text \<open>
  \<^verbatim>\<open>a.localeCompare(b)\<close> compares by the collation of the runtime's locale (ICU), not by
  code points: negative when \<^verbatim>\<open>a\<close> sorts before \<^verbatim>\<open>b\<close>, positive when after, zero when the
  collation does not tell them apart.
\<close>

definition localeCompare :: "platform \<Rightarrow> string \<Rightarrow> string \<Rightarrow> int" where
  "localeCompare pf a b =
     (if sortKey pf a < sortKey pf b then - 1
      else if sortKey pf b < sortKey pf a then 1
      else 0)"

text \<open>
  A platform for the examples, all of whose strings are ASCII: the root collation, which
  English uses unchanged. On ASCII, control characters are ignored; the other characters
  are compared first by their primary weights, in the order white space, punctuation
  \<^verbatim>\<open>_ - , ; : ! ? . ' " ( ) [ ] { } @ * / \ & # %\<close>, symbols
  \<^verbatim>\<open>` ^ + < = > | ~\<close>, \<^verbatim>\<open>$\<close>, digits, letters (a letter has one primary weight for both
  cases); strings with the same primary weights are compared by case, lower case first.
  The sort key of a string is its primary weights, the separator 0 and its case weights.
  Nothing is claimed of \<open>root_locale\<close> on a string that is not ASCII (its bytes are
  ignored there): every statement about all strings is made for every platform.
\<close>

definition collation_order :: "char list" where
  "collation_order =
     [CHR 0x09, CHR 0x0A, CHR 0x0B, CHR 0x0C, CHR 0x0D, CHR 0x20,
      CHR 0x5F, CHR 0x2D, CHR 0x2C, CHR 0x3B, CHR 0x3A, CHR 0x21, CHR 0x3F, CHR 0x2E,
      CHR 0x27, CHR 0x22, CHR 0x28, CHR 0x29, CHR 0x5B, CHR 0x5D, CHR 0x7B, CHR 0x7D,
      CHR 0x40, CHR 0x2A, CHR 0x2F, CHR 0x5C, CHR 0x26, CHR 0x23, CHR 0x25,
      CHR 0x60, CHR 0x5E, CHR 0x2B, CHR 0x3C, CHR 0x3D, CHR 0x3E, CHR 0x7C, CHR 0x7E,
      CHR 0x24]
     @ ''0123456789'' @ ''abcdefghijklmnopqrstuvwxyz''"

fun index_of :: "'a \<Rightarrow> 'a list \<Rightarrow> nat option" where
  "index_of x [] = None"
| "index_of x (y # ys) = (if x = y then Some 0 else map_option Suc (index_of x ys))"

definition primary_weight :: "char \<Rightarrow> nat option" where
  "primary_weight c = map_option Suc (index_of (lower_char c) collation_order)"

definition case_weight :: "char \<Rightarrow> nat" where
  "case_weight c = (if lower_char c = c then 1 else 2)"

definition collation_key :: "string \<Rightarrow> nat list" where
  "collation_key s =
     (let cs = filter (\<lambda>c. primary_weight c \<noteq> None) s
      in map (\<lambda>c. the (primary_weight c)) cs @ [0] @ map case_weight cs)"

definition root_locale :: platform where
  "root_locale = \<lparr>lowerCase = map lower_char, sortKey = collation_key\<rparr>"

text \<open>
  \<^verbatim>\<open>xs.sort(cmp)\<close> is a stable sort. For a comparison that is consistent, as
  \<^verbatim>\<open>localeCompare\<close> is, its result is the one of the stable insertion sort.
\<close>

fun insert_cmp :: "('a \<Rightarrow> 'a \<Rightarrow> int) \<Rightarrow> 'a \<Rightarrow> 'a list \<Rightarrow> 'a list" where
  "insert_cmp cmp x [] = [x]"
| "insert_cmp cmp x (y # ys) =
     (if cmp x y \<le> 0 then x # y # ys else y # insert_cmp cmp x ys)"

definition Array_sort :: "('a \<Rightarrow> 'a \<Rightarrow> int) \<Rightarrow> 'a list \<Rightarrow> 'a list" where
  "Array_sort cmp xs = foldr (insert_cmp cmp) xs []"

section \<open>Bytes, SHA-256 and HMAC\<close>

text \<open>
  \<^verbatim>\<open>crypto.subtle.digest("SHA-256", bytes)\<close> and the \<^verbatim>\<open>hmac\<close> module are the platform's; they
  are modelled after FIPS 180-4 and RFC 2104, on 32-bit words.
\<close>

type_synonym byte = "8 word"
type_synonym u32 = "32 word"

text \<open>\<^verbatim>\<open>new TextEncoder().encode(s)\<close>: the UTF-8 bytes of the string.\<close>

definition TextEncoder_encode :: "string \<Rightarrow> byte list" where
  "TextEncoder_encode s = map of_char s"

definition rotr :: "nat \<Rightarrow> u32 \<Rightarrow> u32" where
  "rotr n x = drop_bit n x OR push_bit (32 - n) x"

definition Ch :: "u32 \<Rightarrow> u32 \<Rightarrow> u32 \<Rightarrow> u32" where
  "Ch x y z = (x AND y) XOR (NOT x AND z)"

definition Maj :: "u32 \<Rightarrow> u32 \<Rightarrow> u32 \<Rightarrow> u32" where
  "Maj x y z = (x AND y) XOR (x AND z) XOR (y AND z)"

definition bsig0 :: "u32 \<Rightarrow> u32" where
  "bsig0 x = rotr 2 x XOR rotr 13 x XOR rotr 22 x"

definition bsig1 :: "u32 \<Rightarrow> u32" where
  "bsig1 x = rotr 6 x XOR rotr 11 x XOR rotr 25 x"

definition ssig0 :: "u32 \<Rightarrow> u32" where
  "ssig0 x = rotr 7 x XOR rotr 18 x XOR drop_bit 3 x"

definition ssig1 :: "u32 \<Rightarrow> u32" where
  "ssig1 x = rotr 17 x XOR rotr 19 x XOR drop_bit 10 x"

definition sha256_K :: "u32 list" where
  "sha256_K = [
    0x428A2F98, 0x71374491, 0xB5C0FBCF, 0xE9B5DBA5, 0x3956C25B, 0x59F111F1, 0x923F82A4, 0xAB1C5ED5,
    0xD807AA98, 0x12835B01, 0x243185BE, 0x550C7DC3, 0x72BE5D74, 0x80DEB1FE, 0x9BDC06A7, 0xC19BF174,
    0xE49B69C1, 0xEFBE4786, 0x0FC19DC6, 0x240CA1CC, 0x2DE92C6F, 0x4A7484AA, 0x5CB0A9DC, 0x76F988DA,
    0x983E5152, 0xA831C66D, 0xB00327C8, 0xBF597FC7, 0xC6E00BF3, 0xD5A79147, 0x06CA6351, 0x14292967,
    0x27B70A85, 0x2E1B2138, 0x4D2C6DFC, 0x53380D13, 0x650A7354, 0x766A0ABB, 0x81C2C92E, 0x92722C85,
    0xA2BFE8A1, 0xA81A664B, 0xC24B8B70, 0xC76C51A3, 0xD192E819, 0xD6990624, 0xF40E3585, 0x106AA070,
    0x19A4C116, 0x1E376C08, 0x2748774C, 0x34B0BCB5, 0x391C0CB3, 0x4ED8AA4A, 0x5B9CCA4F, 0x682E6FF3,
    0x748F82EE, 0x78A5636F, 0x84C87814, 0x8CC70208, 0x90BEFFFA, 0xA4506CEB, 0xBEF9A3F7, 0xC67178F2]"

definition sha256_H0 :: "u32 list" where
  "sha256_H0 = [0x6A09E667, 0xBB67AE85, 0x3C6EF372, 0xA54FF53A,
                0x510E527F, 0x9B05688C, 0x1F83D9AB, 0x5BE0CD19]"

definition be32_bytes :: "u32 \<Rightarrow> byte list" where
  "be32_bytes w = [ucast (drop_bit 24 w), ucast (drop_bit 16 w), ucast (drop_bit 8 w), ucast w]"

definition be64_bytes :: "64 word \<Rightarrow> byte list" where
  "be64_bytes w = map (\<lambda>s. ucast (drop_bit s w)) [56, 48, 40, 32, 24, 16, 8, 0]"

text \<open>
  Padding: the byte 0x80, zero bytes up to 56 modulo 64, and the length of the message in
  bits as a 64-bit big-endian number.
\<close>

definition sha256_pad :: "byte list \<Rightarrow> byte list" where
  "sha256_pad m =
     m @ [0x80] @ replicate ((64 - (length m + 9) mod 64) mod 64) 0
       @ be64_bytes (of_nat (8 * length m))"

fun be_words :: "byte list \<Rightarrow> u32 list" where
  "be_words (a # b # c # d # rest) =
     (push_bit 24 (ucast a) OR push_bit 16 (ucast b) OR push_bit 8 (ucast c) OR ucast d)
       # be_words rest"
| "be_words _ = []"

fun chunks :: "nat \<Rightarrow> 'a list \<Rightarrow> 'a list list" where
  "chunks n xs = (if n = 0 \<or> xs = [] then [] else take n xs # chunks n (drop n xs))"

declare chunks.simps [simp del]

text \<open>The message schedule: the 16 words of the block, extended to 64.\<close>

definition sha256_schedule :: "u32 list \<Rightarrow> u32 list" where
  "sha256_schedule ws =
     foldl (\<lambda>w t. w @ [ssig1 (w ! (t - 2)) + w ! (t - 7) + ssig0 (w ! (t - 15)) + w ! (t - 16)])
       ws [16..<64]"

fun sha256_round :: "u32 list \<Rightarrow> u32 \<times> u32 \<Rightarrow> u32 list" where
  "sha256_round [a, b, c, d, e, f, g, h] (k, w) =
     (let t1 = h + bsig1 e + Ch e f g + k + w;
          t2 = bsig0 a + Maj a b c
      in [t1 + t2, a, b, c, d + t1, e, f, g])"
| "sha256_round s _ = s"

definition sha256_compress :: "u32 list \<Rightarrow> byte list \<Rightarrow> u32 list" where
  "sha256_compress hs block =
     map2 (+) hs (foldl sha256_round hs (zip sha256_K (sha256_schedule (be_words block))))"

definition sha256 :: "byte list \<Rightarrow> byte list" where
  "sha256 m =
     concat (map be32_bytes (foldl sha256_compress sha256_H0 (chunks 64 (sha256_pad m))))"

text \<open>
  HMAC with SHA-256 (block size 64): a key longer than a block is hashed first, the key
  is filled with zero bytes to a block, and the message is hashed under the inner and
  then the outer pad.
\<close>

definition hmac_sha256 :: "byte list \<Rightarrow> byte list \<Rightarrow> byte list" where
  "hmac_sha256 key msg =
     (let k0 = (if 64 < length key then sha256 key else key);
          k = k0 @ replicate (64 - length k0) 0
      in sha256 (map (\<lambda>b. b XOR 0x5c) k @ sha256 (map (\<lambda>b. b XOR 0x36) k @ msg)))"

text \<open>\<^verbatim>\<open>encodeHex(bytes)\<close> of \<^verbatim>\<open>std/encoding/hex.ts\<close>: two lower-case digits for each byte.\<close>

definition hexDigit :: "nat \<Rightarrow> char" where
  "hexDigit n = ''0123456789abcdef'' ! n"

definition encodeHex :: "byte list \<Rightarrow> string" where
  "encodeHex bs =
     concat (map (\<lambda>b. [hexDigit (unat (drop_bit 4 b)), hexDigit (unat (b AND 15))]) bs)"

text \<open>
  \<^verbatim>\<open>hmac("sha256", key, msg, "utf8", "hex")\<close>: key and message are strings, read as their
  UTF-8 bytes; the result is the digest in hexadecimal.
\<close>

definition hmac :: "string \<Rightarrow> string \<Rightarrow> string" where
  "hmac key msg = encodeHex (hmac_sha256 (TextEncoder_encode key) (TextEncoder_encode msg))"

section \<open>Objects and JSON\<close>

text \<open>
  An object used as a record of strings (\<^verbatim>\<open>Record<string, string>\<close>) is the list of its
  own properties, each key once, in the order \<^verbatim>\<open>Object.entries\<close> lists them: the keys that
  are array indices first, by their number, then the other keys in the order of their
  creation. Assigning to a property that exists keeps its place.
\<close>

type_synonym 'v jsobject = "(string \<times> 'v) list"

definition is_digit :: "char \<Rightarrow> bool" where
  "is_digit c = (c \<in> set ''0123456789'')"

definition digit_value :: "char \<Rightarrow> int" where
  "digit_value c = (case index_of c ''0123456789'' of Some d \<Rightarrow> int d | None \<Rightarrow> 0)"

definition index_value :: "string \<Rightarrow> int" where
  "index_value k = foldl (\<lambda>n c. 10 * n + digit_value c) 0 k"

definition is_array_index :: "string \<Rightarrow> bool" where
  "is_array_index k =
     (k \<noteq> [] \<and> list_all is_digit k \<and> (k = ''0'' \<or> \<not> startsWith k ''0'')
      \<and> index_value k < 4294967295)"

fun insert_index :: "string \<Rightarrow> 'v \<Rightarrow> 'v jsobject \<Rightarrow> 'v jsobject" where
  "insert_index k v [] = [(k, v)]"
| "insert_index k v (p # ps) =
     (if is_array_index (fst p) \<and> index_value (fst p) < index_value k
      then p # insert_index k v ps
      else (k, v) # p # ps)"

fun update_property :: "'v jsobject \<Rightarrow> string \<Rightarrow> 'v \<Rightarrow> 'v jsobject" where
  "update_property [] k v = []"
| "update_property (p # ps) k v =
     (if fst p = k then (k, v) # ps else p # update_property ps k v)"

text \<open>\<^verbatim>\<open>obj[k] = v\<close>.\<close>

definition set_property :: "'v jsobject \<Rightarrow> string \<Rightarrow> 'v \<Rightarrow> 'v jsobject" where
  "set_property obj k v =
     (if k \<in> set (map fst obj) then update_property obj k v
      else if is_array_index k then insert_index k v obj
      else obj @ [(k, v)])"

text \<open>\<^verbatim>\<open>Object.assign(target, source)\<close>: the properties of the source, in their order.\<close>

definition Object_assign :: "'v jsobject \<Rightarrow> 'v jsobject \<Rightarrow> 'v jsobject" where
  "Object_assign target source = foldl (\<lambda>obj p. set_property obj (fst p) (snd p)) target source"

text \<open>
  A JSON value: what \<^verbatim>\<open>response.json()\<close> yields, and the object a \<^verbatim>\<open>Policy\<close> is at run
  time. An object is the list of its properties, each key once, in the order of
  \<^verbatim>\<open>Object.entries\<close>. A number is finite.
\<close>

datatype json =
    JNull
  | JBool bool
  | JNumber number
  | JString string
  | JArray "json list"
  | JObject "(string \<times> json) list"

text \<open>The test \<^verbatim>\<open>if (value)\<close>.\<close>

fun truthy :: "json \<Rightarrow> bool" where
  "truthy JNull = False"
| "truthy (JBool b) = b"
| "truthy (JNumber n) = (Number_toString n \<noteq> ''0'')"
| "truthy (JString s) = (s \<noteq> [])"
| "truthy (JArray xs) = True"
| "truthy (JObject ps) = True"

text \<open>
  \<^verbatim>\<open>JSON.stringify(value)\<close>, with no indentation: in a string the quote, the backslash and
  the control characters are escaped; a finite number is written as its conversion to a
  string writes it.
\<close>

definition json_escape :: "char \<Rightarrow> string" where
  "json_escape c =
     (if c = CHR 0x22 then [CHR 0x5C, CHR 0x22]
      else if c = CHR 0x5C then [CHR 0x5C, CHR 0x5C]
      else if c = CHR 0x08 then [CHR 0x5C, CHR ''b'']
      else if c = CHR 0x0C then [CHR 0x5C, CHR ''f'']
      else if c = CHR 0x0A then [CHR 0x5C, CHR ''n'']
      else if c = CHR 0x0D then [CHR 0x5C, CHR ''r'']
      else if c = CHR 0x09 then [CHR 0x5C, CHR ''t'']
      else if (of_char c :: nat) < 32
        then [CHR 0x5C, CHR ''u'', CHR ''0'', CHR ''0'',
              hexDigit (of_char c div 16), hexDigit (of_char c mod 16)]
      else [c])"

definition json_quote :: "string \<Rightarrow> string" where
  "json_quote s = [CHR 0x22] @ concat (map json_escape s) @ [CHR 0x22]"

fun JSON_stringify :: "json \<Rightarrow> string" where
  "JSON_stringify JNull = ''null''"
| "JSON_stringify (JBool b) = (if b then ''true'' else ''false'')"
| "JSON_stringify (JNumber n) = Number_toString n"
| "JSON_stringify (JString s) = json_quote s"
| "JSON_stringify (JArray xs) = ''['' @ join '','' (map JSON_stringify xs) @ '']''"
| "JSON_stringify (JObject ps) =
     ''{'' @ join '','' (map (\<lambda>p. json_quote (fst p) @ '':'' @ JSON_stringify (snd p)) ps) @ ''}''"

section \<open>The client\<close>

subsection \<open>Requests, responses and errors\<close>

text \<open>The class \<^verbatim>\<open>AssumeRoleRequest\<close>; \<^verbatim>\<open>null\<close> is \<^const>\<open>JNull\<close> and \<^const>\<open>None\<close>.\<close>

record AssumeRoleRequest =
  durationSeconds :: number
  policy :: json
  roleArn :: string
  roleSessionName :: string
  externalId :: "string option"

text \<open>The constructor: \<^verbatim>\<open>durationSeconds\<close> and \<^verbatim>\<open>externalId\<close> keep their initial values.\<close>

definition new_AssumeRoleRequest :: "string \<Rightarrow> string \<Rightarrow> json \<Rightarrow> AssumeRoleRequest" where
  "new_AssumeRoleRequest arn name pol =
     \<lparr>durationSeconds = Number ''3600'', policy = pol, roleArn = arn, roleSessionName = name,
      externalId = None\<rparr>"

text \<open>
  The successful response \<^verbatim>\<open>AssumeRoleResponse\<close>. Its fields are what the JSON of the
  response holds, \<^const>\<open>None\<close> where the member is missing (\<^verbatim>\<open>undefined\<close>).
\<close>

record AssumeRoleResponse =
  requestId :: "json option"
  assumedRoleId :: "json option"
  arn :: "json option"
  securityToken :: "json option"
  credentialsAccessKeyId :: "json option"
  credentialsAccessKeySecret :: "json option"
  expiration :: "json option"

text \<open>
  What is thrown. \<^verbatim>\<open>ClientError\<close> holds its message, a string, and the four private
  fields, which keep the values the constructor was given (\<^const>\<open>None\<close> is
  \<^verbatim>\<open>undefined\<close>). \<^verbatim>\<open>new Error(message)\<close> is \<open>PlainError\<close>. An exception of the platform
  (a \<^verbatim>\<open>DOMException\<close> named \<^verbatim>\<open>TimeoutError\<close>, a \<^verbatim>\<open>TypeError\<close>, a \<^verbatim>\<open>SyntaxError\<close>) is known by
  its name.
\<close>

datatype exception =
    ClientError (ce_message: string) (ce_requestId: "json option")
      (ce_hostId: "json option") (ce_code: "json option") (ce_recommend: "json option")
  | PlainError string
  | PlatformError string

fun exception_name :: "exception \<Rightarrow> string" where
  "exception_name (ClientError m r h c d) = ''Error''"
| "exception_name (PlainError m) = ''Error''"
| "exception_name (PlatformError n) = n"

text \<open>Sequencing: the first exception ends the evaluation.\<close>

definition and_then :: "'e + 'a \<Rightarrow> ('a \<Rightarrow> 'e + 'b) \<Rightarrow> 'e + 'b" where
  "and_then r f = (case r of Inl e \<Rightarrow> Inl e | Inr x \<Rightarrow> f x)"

fun all_values :: "('e + 'a) list \<Rightarrow> 'e + 'a list" where
  "all_values [] = Inr []"
| "all_values (r # rs) =
     (case r of
        Inl e \<Rightarrow> Inl e
      | Inr x \<Rightarrow> (case all_values rs of Inl e \<Rightarrow> Inl e | Inr xs \<Rightarrow> Inr (x # xs)))"

text \<open>
  The conversion of a value to a string, which the constructor of \<^verbatim>\<open>Error\<close> applies to its
  message. An array is its elements, converted and joined with commas, \<^verbatim>\<open>null\<close> among
  them giving the empty string. An object is \<^verbatim>\<open>[object Object]\<close>; but an object with a
  property \<^verbatim>\<open>toString\<close> of its own, which in a JSON value is no function, has no conversion:
  a \<^verbatim>\<open>TypeError\<close> is thrown.
\<close>

fun ToString :: "json \<Rightarrow> exception + string" where
  "ToString JNull = Inr ''null''"
| "ToString (JBool b) = Inr (if b then ''true'' else ''false'')"
| "ToString (JNumber n) = Inr (Number_toString n)"
| "ToString (JString s) = Inr s"
| "ToString (JArray xs) =
     and_then (all_values (map (\<lambda>x. if x = JNull then Inr [] else ToString x) xs))
       (\<lambda>texts. Inr (join '','' texts))"
| "ToString (JObject ps) =
     (if ''toString'' \<in> set (map fst ps) then Inl (PlatformError ''TypeError'')
      else Inr ''[object Object]'')"

text \<open>
  \<^verbatim>\<open>new ClientError(message, requestId, hostId, code, recommend)\<close>: \<^verbatim>\<open>super(message)\<close> sets
  the message to the empty string when the argument is \<^verbatim>\<open>undefined\<close> and to its conversion
  to a string otherwise. \<open>Inr\<close> is the object constructed, \<open>Inl\<close> what the conversion throws.
\<close>

definition message_text :: "json option \<Rightarrow> exception + string" where
  "message_text message = (case message of None \<Rightarrow> Inr [] | Some v \<Rightarrow> ToString v)"

definition new_ClientError ::
  "json option \<Rightarrow> json option \<Rightarrow> json option \<Rightarrow> json option \<Rightarrow> json option
     \<Rightarrow> exception + exception" where
  "new_ClientError message rid hid cod rcm =
     and_then (message_text message) (\<lambda>m. Inr (ClientError m rid hid cod rcm))"

text \<open>\<^verbatim>\<open>ClientError.fromHttpError(message, status)\<close>.\<close>

definition fromHttpError :: "string \<Rightarrow> nat \<Rightarrow> exception + exception" where
  "fromHttpError message status =
     new_ClientError (Some (JString message)) None None (Some (JString (decimal status))) None"

text \<open>
  What the network gives back to \<^verbatim>\<open>fetch\<close>: the promise is rejected with an exception of
  the platform, or there is a response with its status and what \<^verbatim>\<open>response.json()\<close> yields
  on it (an exception of the platform, or the value parsed).
\<close>

datatype fetch_result =
    Rejected string
  | Response nat "string + json"

text \<open>
  Reading the member \<^verbatim>\<open>v.k\<close>, for the names the client reads (none is a property of a
  prototype): a \<^verbatim>\<open>TypeError\<close> on \<^verbatim>\<open>null\<close> and on \<^verbatim>\<open>undefined\<close>; the member of an object,
  \<^verbatim>\<open>undefined\<close> where there is none and on the other values.
\<close>

fun member :: "json option \<Rightarrow> string \<Rightarrow> exception + json option" where
  "member None k = Inl (PlatformError ''TypeError'')"
| "member (Some JNull) k = Inl (PlatformError ''TypeError'')"
| "member (Some (JObject ps)) k = Inr (map_of ps k)"
| "member (Some v) k = Inr None"

text \<open>\<^verbatim>\<open>v.k1.k2\<close>.\<close>

definition member2 :: "json option \<Rightarrow> string \<Rightarrow> string \<Rightarrow> exception + json option" where
  "member2 v k1 k2 = and_then (member v k1) (\<lambda>w. member w k2)"

subsection \<open>The client and \<^verbatim>\<open>doRequest\<close>\<close>

record StsClient =
  endpoint :: string
  accessKeyId :: string
  accessKeySecret :: string

definition new_StsClient :: "string \<Rightarrow> string \<Rightarrow> string \<Rightarrow> StsClient" where
  "new_StsClient ep akid secret =
     \<lparr>endpoint = ep, accessKeyId = akid, accessKeySecret = secret\<rparr>"

definition defaultHeaders :: "string jsobject" where
  "defaultHeaders =
     [(''x-sdk-client'', ''deno/1.0.0''),
      (''x-acs-version'', ''2015-04-01''),
      (''Accept'', ''application/json'')]"

datatype http_method = GET | POST | PUT | DELETE | PATCH | OPTIONS | HEAD

fun method_text :: "http_method \<Rightarrow> string" where
  "method_text GET = ''GET''"
| "method_text POST = ''POST''"
| "method_text PUT = ''PUT''"
| "method_text DELETE = ''DELETE''"
| "method_text PATCH = ''PATCH''"
| "method_text OPTIONS = ''OPTIONS''"
| "method_text HEAD = ''HEAD''"

text \<open>
  The two functions of \<^verbatim>\<open>helper.ts\<close>, on what the clock gives.
  \<^verbatim>\<open>currentDateAsISO8601\<close>: the text of \<^verbatim>\<open>new Date().toISOString()\<close> without its last five
  characters (the milliseconds and the \<^verbatim>\<open>Z\<close>), and a \<^verbatim>\<open>Z\<close>. \<^verbatim>\<open>generateNonce\<close>: the
  milliseconds of \<^verbatim>\<open>Date.now()\<close> in decimal.
\<close>

definition currentDateAsISO8601 :: "string \<Rightarrow> string" where
  "currentDateAsISO8601 isoText = take (length isoText - 5) isoText @ ''Z''"

definition generateNonce :: "nat \<Rightarrow> string" where
  "generateNonce now = decimal now"

text \<open>
  The steps of \<^verbatim>\<open>doRequest\<close>, each under the name of the constant it computes. The time
  string and the nonce are arguments of the steps. The calls of \<^verbatim>\<open>log\<close> print when the
  environment asks for it and change no value: they are left out.
\<close>

definition mergedHeaders :: "StsClient \<Rightarrow> string \<Rightarrow> string \<Rightarrow> string jsobject \<Rightarrow> string jsobject" where
  "mergedHeaders client timeString nonce headers =
     Object_assign
       (Object_assign
          [(''x-acs-signature-nonce'', nonce),
           (''x-acs-date'', timeString),
           (''host'', endpoint client)]
          defaultHeaders)
       headers"

text \<open>
  One pair of a query string or of a form:
  \<^verbatim>\<open>`${encodeURIComponent(k)}=${v === null || v === undefined ? "" : encodeURIComponent(v)}`\<close>.
\<close>

definition form_pair :: "string \<times> string option \<Rightarrow> string" where
  "form_pair p =
     encodeURIComponent (fst p) @ ''=''
       @ (case snd p of None \<Rightarrow> [] | Some v \<Rightarrow> encodeURIComponent v)"

text \<open>The comparison \<^verbatim>\<open>(e1, e2) => e1[0].localeCompare(e2[0])\<close>.\<close>

definition by_key :: "platform \<Rightarrow> string \<times> 'v \<Rightarrow> string \<times> 'v \<Rightarrow> int" where
  "by_key pf e1 e2 = localeCompare pf (fst e1) (fst e2)"

definition canonicalQueryString :: "platform \<Rightarrow> string option jsobject \<Rightarrow> string" where
  "canonicalQueryString pf query = join ''&'' (map form_pair (Array_sort (by_key pf) query))"

definition payloadString :: "string option jsobject option \<Rightarrow> string" where
  "payloadString payload =
     (case payload of None \<Rightarrow> [] | Some ps \<Rightarrow> join ''&'' (map form_pair ps))"

definition payloadHashString :: "string \<Rightarrow> string" where
  "payloadHashString body = encodeHex (sha256 (TextEncoder_encode body))"

definition signed_header :: "string \<times> string \<Rightarrow> bool" where
  "signed_header p = (fst p = ''host'' \<or> startsWith (fst p) ''x-acs-'')"

definition canonicalHeaders :: "platform \<Rightarrow> string jsobject \<Rightarrow> (string \<times> string) list" where
  "canonicalHeaders pf allHeaders =
     Array_sort (by_key pf)
       (filter signed_header (map (\<lambda>p. (toLowerCase pf (fst p), trim (snd p))) allHeaders))"

definition canonicalHeaderString :: "(string \<times> string) list \<Rightarrow> string" where
  "canonicalHeaderString hs = join newline (map (\<lambda>p. fst p @ '':'' @ snd p) hs)"

definition canonicalHeaderNameString :: "(string \<times> string) list \<Rightarrow> string" where
  "canonicalHeaderNameString hs = join '';'' (map fst hs)"

definition canonicalRequest ::
  "http_method \<Rightarrow> string \<Rightarrow> string \<Rightarrow> string \<Rightarrow> string \<Rightarrow> string \<Rightarrow> string" where
  "canonicalRequest method uri queryString headerString headerNames payloadHash =
     method_text method @ newline @ uri @ newline @ queryString @ newline
       @ headerString @ newline @ newline @ headerNames @ newline @ payloadHash"

definition string2sign :: "string \<Rightarrow> string" where
  "string2sign canonical =
     ''ACS3-HMAC-SHA256'' @ newline @ encodeHex (sha256 (TextEncoder_encode canonical))"

definition sigString :: "string \<Rightarrow> string \<Rightarrow> string" where
  "sigString secret toSign = hmac secret toSign"

definition authorizationHeader :: "string \<Rightarrow> string \<Rightarrow> string \<Rightarrow> string" where
  "authorizationHeader keyId headerNames sig =
     ''ACS3-HMAC-SHA256 Credential='' @ keyId @ '',SignedHeaders='' @ headerNames
       @ '',Signature='' @ sig"

text \<open>
  What \<^verbatim>\<open>doRequest\<close> has computed when it calls \<^verbatim>\<open>fetch\<close>: the canonical request and the
  values derived from it, the URL, and the \<^verbatim>\<open>RequestInit\<close> (method, headers, body, and
  the time after which the signal aborts).
\<close>

record prepared =
  canonical_request :: string
  payload_hash :: string
  signed_names :: string
  signature :: string
  authorization :: string
  full_url :: string
  init_method :: http_method
  init_headers :: "string jsobject"
  init_body :: "byte list option"
  init_timeout :: nat

definition prepare ::
  "platform \<Rightarrow> StsClient \<Rightarrow> http_method \<Rightarrow> string \<Rightarrow> string jsobject \<Rightarrow> string option jsobject
     \<Rightarrow> string option jsobject option \<Rightarrow> nat option \<Rightarrow> string \<Rightarrow> string \<Rightarrow> prepared" where
  "prepare pf client method uri headers query payload timeoutMs timeString nonce =
     (let allHeaders = mergedHeaders client timeString nonce headers;
          queryString = canonicalQueryString pf query;
          body = payloadString payload;
          payloadBytes = TextEncoder_encode body;
          payloadHash = payloadHashString body;
          allHeaders = set_property allHeaders ''x-acs-content-sha256'' payloadHash;
          hs = canonicalHeaders pf allHeaders;
          headerString = canonicalHeaderString hs;
          headerNames = canonicalHeaderNameString hs;
          canonical = canonicalRequest method uri queryString headerString headerNames payloadHash;
          sig = sigString (accessKeySecret client) (string2sign canonical);
          auth = authorizationHeader (accessKeyId client) headerNames sig;
          allHeaders = set_property allHeaders ''Authorization'' auth;
          allHeaders =
            (if body \<noteq> []
             then set_property allHeaders ''Content-Length'' (decimal (length payloadBytes))
             else allHeaders);
          allHeaders = set_property allHeaders ''Content-Type'' ''application/x-www-form-urlencoded''
      in \<lparr>canonical_request = canonical,
          payload_hash = payloadHash,
          signed_names = headerNames,
          signature = sig,
          authorization = auth,
          full_url = ''https://'' @ endpoint client @ uri
                       @ (if queryString \<noteq> [] then ''?'' else []) @ queryString,
          init_method = method,
          init_headers = allHeaders,
          init_body = (if body \<noteq> [] then Some payloadBytes else None),
          init_timeout = (case timeoutMs of None \<Rightarrow> 10000 | Some t \<Rightarrow> t)\<rparr>)"

text \<open>\<^verbatim>\<open>await response.json()\<close>: the value parsed, or the exception thrown.\<close>

definition response_json :: "string + json \<Rightarrow> exception + json" where
  "response_json body = (case body of Inl n \<Rightarrow> Inl (PlatformError n) | Inr j \<Rightarrow> Inr j)"

text \<open>
  The \<^verbatim>\<open>try\<close> block on what \<^verbatim>\<open>fetch\<close> gives: \<open>Inl\<close> is what is thrown in it, \<open>Inr\<close> the
  value returned.
\<close>

definition try_block :: "fetch_result \<Rightarrow> exception + AssumeRoleResponse" where
  "try_block r =
     (case r of
        Rejected n \<Rightarrow> Inl (PlatformError n)
      | Response status body \<Rightarrow>
          if 500 \<le> status
          then and_then (fromHttpError ''response status code error'' status) Inl
          else if 400 \<le> status then
            and_then (response_json body) (\<lambda>j.
            and_then (member (Some j) ''RequestId'') (\<lambda>rid.
            and_then (member (Some j) ''HostId'') (\<lambda>hid.
            and_then (member (Some j) ''Code'') (\<lambda>cod.
            and_then (member (Some j) ''Message'') (\<lambda>msg.
            and_then (member (Some j) ''Recommend'') (\<lambda>rcm.
            and_then (new_ClientError msg rid hid cod rcm) Inl))))))
          else
            and_then (response_json body) (\<lambda>j.
            and_then (member (Some j) ''RequestId'') (\<lambda>rid.
            and_then (member2 (Some j) ''AssumedRoleUser'' ''AssumedRoleId'') (\<lambda>rol.
            and_then (member2 (Some j) ''AssumedRoleUser'' ''Arn'') (\<lambda>a.
            and_then (member2 (Some j) ''Credentials'' ''SecurityToken'') (\<lambda>tok.
            and_then (member2 (Some j) ''Credentials'' ''AccessKeyId'') (\<lambda>kid.
            and_then (member2 (Some j) ''Credentials'' ''AccessKeySecret'') (\<lambda>sec.
            and_then (member2 (Some j) ''Credentials'' ''Expiration'') (\<lambda>ex.
              Inr \<lparr>requestId = rid, assumedRoleId = rol, arn = a, securityToken = tok,
                   credentialsAccessKeyId = kid, credentialsAccessKeySecret = sec,
                   expiration = ex\<rparr>)))))))))"

text \<open>
  The \<^verbatim>\<open>catch\<close> block: an exception named \<^verbatim>\<open>TimeoutError\<close> becomes
  \<^verbatim>\<open>new Error("request timeout")\<close>, any other one is thrown again.
\<close>

definition catch_block :: "exception \<Rightarrow> exception" where
  "catch_block e =
     (if exception_name e = ''TimeoutError'' then PlainError ''request timeout'' else e)"

definition respond :: "fetch_result \<Rightarrow> exception + AssumeRoleResponse" where
  "respond r = (case try_block r of Inl e \<Rightarrow> Inl (catch_block e) | Inr v \<Rightarrow> Inr v)"

text \<open>
  \<^verbatim>\<open>doRequest\<close> on a platform: the network is the function \<open>fetch\<close>, from the URL and the
  \<^verbatim>\<open>RequestInit\<close> to what comes back; \<open>isoText\<close> and \<open>now\<close> are what the clock gives to
  \<^verbatim>\<open>toISOString\<close> and to \<^verbatim>\<open>Date.now\<close> when the call starts.
\<close>

definition doRequest ::
  "platform \<Rightarrow> (prepared \<Rightarrow> fetch_result) \<Rightarrow> StsClient \<Rightarrow> http_method \<Rightarrow> string \<Rightarrow> string jsobject
     \<Rightarrow> string option jsobject \<Rightarrow> string option jsobject option \<Rightarrow> nat option
     \<Rightarrow> string \<Rightarrow> nat \<Rightarrow> exception + AssumeRoleResponse" where
  "doRequest pf fetch client method uri headers query payload timeoutMs isoText now =
     respond (fetch (prepare pf client method uri headers query payload timeoutMs
                       (currentDateAsISO8601 isoText) (generateNonce now)))"

subsection \<open>\<^verbatim>\<open>assumeRole\<close>\<close>

text \<open>The form that \<^verbatim>\<open>assumeRole\<close> builds from the request.\<close>

definition assumeRole_payload :: "AssumeRoleRequest \<Rightarrow> string option jsobject" where
  "assumeRole_payload config =
     (let payload =
            [(''DurationSeconds'', Some (Number_toString (durationSeconds config))),
             (''RoleArn'', Some (roleArn config)),
             (''RoleSessionName'', Some (roleSessionName config))];
          payload =
            (if truthy (policy config)
             then set_property payload ''Policy'' (Some (JSON_stringify (policy config)))
             else payload);
          payload =
            (case externalId config of
               None \<Rightarrow> payload
             | Some x \<Rightarrow> if x \<noteq> [] then set_property payload ''ExternalId'' (Some x) else payload)
      in payload)"

definition assumeRole ::
  "platform \<Rightarrow> (prepared \<Rightarrow> fetch_result) \<Rightarrow> StsClient \<Rightarrow> AssumeRoleRequest \<Rightarrow> nat option
     \<Rightarrow> string \<Rightarrow> nat \<Rightarrow> exception + AssumeRoleResponse" where
  "assumeRole pf fetch client config timeoutMs isoText now =
     doRequest pf fetch client POST ''/'' [(''x-acs-action'', ''AssumeRole'')] []
       (Some (assumeRole_payload config)) timeoutMs isoText now"

section \<open>The specification's readings\<close>

text \<open>
  Definitions that follow the words of the specification, to be compared with the
  definitions taken from the code.
\<close>

text \<open>
  The canonical request as the specification words it: the seven fields in their order,
  each field followed by a single newline.
\<close>

definition spec_canonicalRequest ::
  "http_method \<Rightarrow> string \<Rightarrow> string \<Rightarrow> string \<Rightarrow> string \<Rightarrow> string \<Rightarrow> string" where
  "spec_canonicalRequest method uri queryString headerString headerNames payloadHash =
     concat (map (\<lambda>field. field @ newline)
       [method_text method, uri, queryString, headerString, [], headerNames, payloadHash])"

text \<open>
  The canonical query string as the specification words it: the entries sorted by key in
  the order of the code points (for UTF-8 the order of the bytes), each pair encoded, the
  pairs joined with an ampersand.
\<close>

definition spec_canonicalQueryString :: "string option jsobject \<Rightarrow> string" where
  "spec_canonicalQueryString query =
     join ''&'' (map form_pair (sort_key (\<lambda>p. map (of_char :: char \<Rightarrow> nat) (fst p)) query))"

text \<open>
  The layout of the authorization value as the specification words it: the algorithm
  identifier, one space, and the pairs written \<^verbatim>\<open>Key=Value\<close> and separated by commas.
\<close>

definition spec_authorization :: "string \<Rightarrow> (string \<times> string) list \<Rightarrow> string" where
  "spec_authorization algorithm pairs =
     algorithm @ '' '' @ join '','' (map (\<lambda>p. fst p @ ''='' @ snd p) pairs)"

text \<open>
  The outcomes the specification lists for a call: a result, a \<^verbatim>\<open>ClientError\<close>, or the
  timeout error.
\<close>

fun is_ClientError :: "exception \<Rightarrow> bool" where
  "is_ClientError (ClientError m r h c d) = True"
| "is_ClientError e = False"

definition spec_outcome :: "exception + AssumeRoleResponse \<Rightarrow> bool" where
  "spec_outcome out =
     (case out of
        Inr v \<Rightarrow> True
      | Inl e \<Rightarrow> is_ClientError e \<or> e = PlainError ''request timeout'')"

section \<open>Notions for the order of the headers\<close>

text \<open>
  The names that take part in the signature, and the object the headers of the caller are
  merged into: the three injected headers followed by the defaults of the client.
\<close>

definition signed_name :: "platform \<Rightarrow> string \<Rightarrow> bool" where
  "signed_name pf k = (toLowerCase pf k = ''host'' \<or> startsWith (toLowerCase pf k) ''x-acs-'')"

definition merge_target :: "StsClient \<Rightarrow> string \<Rightarrow> string \<Rightarrow> string jsobject" where
  "merge_target client timeString nonce =
     [(''x-acs-signature-nonce'', nonce), (''x-acs-date'', timeString), (''host'', endpoint client),
      (''x-sdk-client'', ''deno/1.0.0''), (''x-acs-version'', ''2015-04-01''),
      (''Accept'', ''application/json'')]"

text \<open>
  The properties of an object whose keys are not array indices; the properties of a target
  with the values a source gives for their keys; and the properties of a source that are
  new to the target and not array indices, in the order of the source.
\<close>

definition named_properties :: "'v jsobject \<Rightarrow> 'v jsobject" where
  "named_properties obj = filter (\<lambda>p. \<not> is_array_index (fst p)) obj"

definition overridden :: "'v jsobject \<Rightarrow> 'v jsobject \<Rightarrow> 'v jsobject" where
  "overridden target source =
     map (\<lambda>p. (fst p, case map_of source (fst p) of Some v \<Rightarrow> v | None \<Rightarrow> snd p)) target"

definition appended :: "'v jsobject \<Rightarrow> 'v jsobject \<Rightarrow> 'v jsobject" where
  "appended target source =
     filter (\<lambda>p. fst p \<notin> set (map fst target) \<and> \<not> is_array_index (fst p)) source"

text \<open>
  The cases of the amended classification of a call, as conditions on what \<^verbatim>\<open>fetch\<close> gives.
  \<open>field j k\<close> is the member \<^verbatim>\<open>k\<close> of the value \<^verbatim>\<open>j\<close>, \<^verbatim>\<open>undefined\<close> where there is none;
  a member is present when it is neither \<^verbatim>\<open>undefined\<close> nor \<^verbatim>\<open>null\<close>; a message has a text
  when it is \<^verbatim>\<open>undefined\<close> or has a conversion to a string. A success: a status below 400
  and a JSON body in which \<^verbatim>\<open>AssumedRoleUser\<close> and \<^verbatim>\<open>Credentials\<close> are present. An error
  envelope: a status from 400 to 499 and a JSON body that is not \<^verbatim>\<open>null\<close> and whose
  \<^verbatim>\<open>Message\<close> has a text. A status error: a status of 500 or more. A timeout: \<^verbatim>\<open>fetch\<close>, or
  below status 500 the reading of the body, fails with a \<^verbatim>\<open>TimeoutError\<close>. Another failure:
  \<^verbatim>\<open>fetch\<close> or the reading of the body fails otherwise, or the body of a status below 500
  is JSON of neither of the two shapes above.
\<close>

definition field :: "json \<Rightarrow> string \<Rightarrow> json option" where
  "field j k = (case j of JObject ps \<Rightarrow> map_of ps k | _ \<Rightarrow> None)"

definition present :: "json \<Rightarrow> string \<Rightarrow> bool" where
  "present j k = (case field j k of Some v \<Rightarrow> v \<noteq> JNull | None \<Rightarrow> False)"

definition has_text :: "json option \<Rightarrow> bool" where
  "has_text message = (case message_text message of Inr m \<Rightarrow> True | Inl e \<Rightarrow> False)"

definition is_success :: "fetch_result \<Rightarrow> bool" where
  "is_success r =
     (case r of
        Rejected n \<Rightarrow> False
      | Response s body \<Rightarrow>
          s < 400 \<and> (case body of
                       Inl n \<Rightarrow> False
                     | Inr j \<Rightarrow> present j ''AssumedRoleUser'' \<and> present j ''Credentials''))"

definition is_error_envelope :: "fetch_result \<Rightarrow> bool" where
  "is_error_envelope r =
     (case r of
        Rejected n \<Rightarrow> False
      | Response s body \<Rightarrow>
          400 \<le> s \<and> s < 500 \<and> (case body of
                                  Inl n \<Rightarrow> False
                                | Inr j \<Rightarrow> j \<noteq> JNull \<and> has_text (field j ''Message'')))"

definition is_status_error :: "fetch_result \<Rightarrow> bool" where
  "is_status_error r = (case r of Rejected n \<Rightarrow> False | Response s body \<Rightarrow> 500 \<le> s)"

definition is_timeout :: "fetch_result \<Rightarrow> bool" where
  "is_timeout r =
     (case r of
        Rejected n \<Rightarrow> n = ''TimeoutError''
      | Response s body \<Rightarrow> s < 500 \<and> body = Inl ''TimeoutError'')"

definition is_other_failure :: "fetch_result \<Rightarrow> bool" where
  "is_other_failure r =
     (case r of
        Rejected n \<Rightarrow> n \<noteq> ''TimeoutError''
      | Response s body \<Rightarrow>
          s < 500 \<and> (case body of
                       Inl n \<Rightarrow> n \<noteq> ''TimeoutError''
                     | Inr j \<Rightarrow>
                         if 400 \<le> s then j = JNull \<or> \<not> has_text (field j ''Message'')
                         else \<not> (present j ''AssumedRoleUser'' \<and> present j ''Credentials'')))"

text \<open>
  For the examples: a text with double quotes, written with back quotes in their place.
\<close>

definition quoted :: "string \<Rightarrow> string" where
  "quoted s = map (\<lambda>c. if c = CHR 0x60 then CHR 0x22 else c) s"

section \<open>Lemmas\<close>

subsection \<open>Sorting with \<^verbatim>\<open>localeCompare pf\<close>\<close>

lemma by_key_le: "(by_key pf p q \<le> 0) = (sortKey pf (fst p) \<le> sortKey pf (fst q))"
  by (auto simp: by_key_def localeCompare_def)

lemma insert_cmp_by_key: "insert_cmp (by_key pf) x ys = insort_key (\<lambda>p. sortKey pf (fst p)) x ys"
  by (induction ys) (simp_all add: by_key_le)

lemma Array_sort_by_key: "Array_sort (by_key pf) xs = sort_key (\<lambda>p. sortKey pf (fst p)) xs"
  by (induction xs) (simp_all add: Array_sort_def sort_key_def insert_cmp_by_key)

lemma mset_Array_sort: "mset (Array_sort (by_key pf) xs) = mset xs"
  by (simp add: Array_sort_by_key)

lemma localeCompare_le: "(localeCompare pf a b \<le> 0) = (sortKey pf a \<le> sortKey pf b)"
  by (auto simp: localeCompare_def)

lemma sorted_Array_sort:
  "sorted_wrt (\<lambda>p q. localeCompare pf (fst p) (fst q) \<le> 0) (Array_sort (by_key pf) xs)"
proof -
  have "sorted (map (\<lambda>p. sortKey pf (fst p)) (Array_sort (by_key pf) xs))"
    by (simp add: Array_sort_by_key)
  then show ?thesis
    by (simp add: sorted_map localeCompare_le)
qed

lemma sort_key_unique:
  fixes f :: "'a \<Rightarrow> 'k::linorder"
  assumes "mset xs = mset ys" and "distinct (map f xs)"
  shows "sort_key f xs = sort_key f ys"
proof -
  have m: "mset (map f xs) = mset (map f ys)" using assms(1) by (metis mset_map)
  have dy: "distinct (map f ys)" using assms(2) m by (metis mset_eq_imp_distinct_iff)
  have s: "set xs = set ys" using assms(1) by (metis mset_eq_setD)
  have "map f (sort_key f xs) = map f (sort_key f ys)"
  proof (rule sorted_distinct_set_unique)
    show "sorted (map f (sort_key f xs))" by simp
    show "sorted (map f (sort_key f ys))" by simp
    show "distinct (map f (sort_key f xs))" using assms(2) by (simp add: distinct_map)
    show "distinct (map f (sort_key f ys))" using dy by (simp add: distinct_map)
    show "set (map f (sort_key f xs)) = set (map f (sort_key f ys))" using s by simp
  qed
  moreover have "inj_on f (set (sort_key f xs) \<union> set (sort_key f ys))"
    using assms(2) s by (simp add: distinct_map)
  ultimately show ?thesis by (simp add: inj_on_map_eq_map)
qed

lemma sort_key_tie_groups:
  fixes f :: "'a \<Rightarrow> 'k::linorder"
  assumes m: "mset xs = mset ys"
      and t: "\<And>k. filter (\<lambda>x. f x = k) xs = filter (\<lambda>x. f x = k) ys"
  shows "sort_key f xs = sort_key f ys"
proof (rule properties_for_sort_key)
  show "mset (sort_key f ys) = mset xs" using m by simp
  show "sorted (map f (sort_key f ys))" by simp
  fix k
  assume "k \<in> set (sort_key f ys)"
  have "filter (\<lambda>x. f k = f x) (sort_key f ys) = filter (\<lambda>x. f x = f k) (sort_key f ys)"
    by (rule filter_cong) auto
  also have "\<dots> = filter (\<lambda>x. f x = f k) ys" by (rule sort_key_stable)
  also have "\<dots> = filter (\<lambda>x. f x = f k) xs" by (rule t [symmetric])
  also have "\<dots> = filter (\<lambda>x. f k = f x) xs" by (rule filter_cong) auto
  finally show "filter (\<lambda>x. f k = f x) (sort_key f ys) = filter (\<lambda>x. f k = f x) xs" .
qed

lemma insort_key_decorated:
  "insort_key fst (f x, x) (map (\<lambda>p. (f p, p)) ys) = map (\<lambda>p. (f p, p)) (insort_key f x ys)"
  by (induction ys) simp_all

lemma sort_key_decorated:
  "sort_key f xs = map snd (sort_key fst (map (\<lambda>p. (f p, p)) xs))"
proof -
  have "sort_key fst (map (\<lambda>p. (f p, p)) xs) = map (\<lambda>p. (f p, p)) (sort_key f xs)"
    by (induction xs) (simp_all add: sort_key_def insort_key_decorated)
  then show ?thesis by (simp add: comp_def)
qed

lemma canonicalHeaders_decorated:
  "canonicalHeaders pf allHeaders =
     map snd (sort_key fst (map (\<lambda>p. (sortKey pf (fst p), p))
       (filter signed_header (map (\<lambda>p. (toLowerCase pf (fst p), trim (snd p))) allHeaders))))"
  unfolding canonicalHeaders_def Array_sort_by_key by (rule sort_key_decorated)

lemma inj_on_distinct_map: "distinct (map f xs) \<Longrightarrow> inj_on f (set xs)"
  by (simp add: distinct_map)

subsection \<open>Objects\<close>

lemma map_fst_update_property: "map fst (update_property obj k v) = map fst obj"
  by (induction obj) auto

lemma map_of_update_property:
  "map_of (update_property obj k v) x =
     (if x = k \<and> map_of obj k \<noteq> None then Some v else map_of obj x)"
  by (induction obj) auto

lemma set_map_fst_insert_index: "set (map fst (insert_index k v obj)) = insert k (set (map fst obj))"
  by (induction obj) auto

lemma distinct_insert_index:
  "k \<notin> set (map fst obj) \<Longrightarrow> distinct (map fst obj) \<Longrightarrow> distinct (map fst (insert_index k v obj))"
  by (induction obj) (auto simp: set_map_fst_insert_index simp flip: set_map)

lemma map_of_insert_index:
  "map_of (insert_index k v obj) x = (if x = k then Some v else map_of obj x)"
  by (induction obj) auto

lemma map_of_set_property:
  "map_of (set_property obj k v) x = (if x = k then Some v else map_of obj x)"
proof (cases "k \<in> set (map fst obj)")
  case True
  then have "map_of obj k \<noteq> None" by (simp add: map_of_eq_None_iff)
  with True show ?thesis by (simp add: set_property_def map_of_update_property)
next
  case False
  then have "map_of obj k = None" by (simp add: map_of_eq_None_iff)
  with False show ?thesis
    by (auto simp: set_property_def map_of_insert_index map_add_def split: option.splits)
qed

lemma keys_set_property: "set (map fst (set_property obj k v)) = insert k (set (map fst obj))"
  by (auto simp: set_property_def map_fst_update_property set_map_fst_insert_index simp flip: set_map)

lemma distinct_set_property:
  "distinct (map fst obj) \<Longrightarrow> distinct (map fst (set_property obj k v))"
  by (auto simp: set_property_def map_fst_update_property distinct_insert_index)

lemma distinct_Object_assign:
  "distinct (map fst target) \<Longrightarrow> distinct (map fst (Object_assign target source))"
  unfolding Object_assign_def
  by (induction source arbitrary: target) (simp_all add: distinct_set_property)

lemma map_of_Object_assign:
  "distinct (map fst source) \<Longrightarrow>
   map_of (Object_assign target source) x =
     (case map_of source x of Some v \<Rightarrow> Some v | None \<Rightarrow> map_of target x)"
  unfolding Object_assign_def
proof (induction source arbitrary: target)
  case Nil
  then show ?case by simp
next
  case (Cons p ps)
  have none: "map_of ps (fst p) = None"
    using Cons.prems by (simp add: map_of_eq_None_iff)
  have "map_of (foldl (\<lambda>obj p. set_property obj (fst p) (snd p)) target (p # ps)) x
        = (case map_of ps x of Some v \<Rightarrow> Some v
           | None \<Rightarrow> map_of (set_property target (fst p) (snd p)) x)"
    using Cons.IH [of "set_property target (fst p) (snd p)"] Cons.prems by simp
  also have "\<dots> = (case map_of (p # ps) x of Some v \<Rightarrow> Some v | None \<Rightarrow> map_of target x)"
    using none by (cases p) (auto simp: map_of_set_property split: option.splits)
  finally show ?case .
qed

lemma keys_Object_assign:
  "set (map fst (Object_assign target source)) = set (map fst target) \<union> set (map fst source)"
  unfolding Object_assign_def
  by (induction source arbitrary: target) (auto simp: keys_set_property simp flip: set_map)

lemma update_property_append:
  "update_property (xs @ ys) k v =
     (if k \<in> set (map fst xs) then update_property xs k v @ ys else xs @ update_property ys k v)"
  by (induction xs) auto

lemma update_property_absent: "k \<notin> set (map fst xs) \<Longrightarrow> update_property xs k v = xs"
  by (induction xs) auto

lemma filter_update_property:
  assumes "\<And>p q. fst p = fst q \<Longrightarrow> Q p = Q q"
  shows "filter Q (update_property xs k v) = update_property (filter Q xs) k v"
proof (induction xs)
  case Nil
  then show ?case by simp
next
  case (Cons p ps)
  have same: "Q (k, v) = Q p" if "fst p = k" using assms [of "(k, v)" p] that by simp
  have absent: "update_property (filter Q ps) k v = filter Q ps" if "fst p = k" "\<not> Q p"
  proof (rule update_property_absent)
    have "Q q = Q p" if "q \<in> set ps" "fst q = k" for q
      using assms [of q p] that \<open>fst p = k\<close> by simp
    then show "k \<notin> set (map fst (filter Q ps))" using that(2) by auto
  qed
  show ?case using Cons same absent by auto
qed

lemma filter_at_most_one:
  assumes "distinct xs" "distinct ys" "set xs = set ys"
      and one: "\<And>a b. a \<in> set xs \<Longrightarrow> b \<in> set xs \<Longrightarrow> Q a \<Longrightarrow> Q b \<Longrightarrow> a = b"
  shows "filter Q xs = filter Q ys"
proof -
  have short: "zs = [] \<or> (\<exists>z. zs = [z])"
    if "distinct zs" "\<And>a b. a \<in> set zs \<Longrightarrow> b \<in> set zs \<Longrightarrow> a = b" for zs :: "'a list"
  proof (cases zs)
    case Nil
    then show ?thesis by simp
  next
    case (Cons z rest)
    have "rest = []"
    proof (cases rest)
      case Nil
      then show ?thesis .
    next
      case (Cons y more)
      then have "y = z" using that(2) [of y z] \<open>zs = z # rest\<close> by simp
      then show ?thesis using that(1) \<open>zs = z # rest\<close> Cons by simp
    qed
    then show ?thesis using Cons by simp
  qed
  have sx: "filter Q xs = [] \<or> (\<exists>z. filter Q xs = [z])"
    by (rule short) (use assms(1) one in auto)
  have sy: "filter Q ys = [] \<or> (\<exists>z. filter Q ys = [z])"
    by (rule short) (use assms(2,3) one in auto)
  have e: "set (filter Q xs) = set (filter Q ys)" using assms(3) by simp
  show ?thesis using e sx sy by (auto simp del: set_filter)
qed

lemma named_update_property:
  "named_properties (update_property obj k v) =
     (if is_array_index k then named_properties obj
      else update_property (named_properties obj) k v)"
  by (induction obj) (auto simp: named_properties_def)

lemma named_insert_index:
  "is_array_index k \<Longrightarrow> named_properties (insert_index k v obj) = named_properties obj"
  by (induction obj) (auto simp: named_properties_def)

lemma named_set_property:
  "named_properties (set_property obj k v) =
     (if is_array_index k then named_properties obj
      else if k \<in> set (map fst obj) then update_property (named_properties obj) k v
      else named_properties obj @ [(k, v)])"
  by (auto simp: set_property_def named_update_property named_insert_index)
     (simp_all add: named_properties_def)

lemma overridden_snoc_absent:
  "a \<notin> set (map fst target) \<Longrightarrow> overridden target (h @ [(a, v)]) = overridden target h"
  by (induction target) (auto simp: overridden_def map_add_def split: option.splits)

lemma overridden_snoc_update:
  "a \<notin> set (map fst h) \<Longrightarrow> distinct (map fst target) \<Longrightarrow>
   overridden target (h @ [(a, v)]) = update_property (overridden target h) a v"
proof (induction target)
  case Nil
  then show ?case by (simp add: overridden_def)
next
  case (Cons p ps)
  have none: "map_of h a = None" using Cons.prems(1) by (simp add: map_of_eq_None_iff)
  show ?case
  proof (cases "fst p = a")
    case True
    then have "a \<notin> set (map fst ps)" using Cons.prems(2) by auto
    then have "overridden ps (h @ [(a, v)]) = overridden ps h" by (rule overridden_snoc_absent)
    then show ?thesis
      using True none by (simp add: overridden_def map_add_def)
  next
    case False
    have "overridden ps (h @ [(a, v)]) = update_property (overridden ps h) a v"
      using Cons by simp
    then show ?thesis
      using False by (simp add: overridden_def map_add_def split: option.splits)
  qed
qed

lemma keys_overridden: "map fst (overridden target h) = map fst target"
  by (simp add: overridden_def comp_def)

lemma overridden_same:
  "map_of h = map_of h' \<Longrightarrow> overridden target h = overridden target h'"
  by (simp add: overridden_def)

lemma named_Object_assign:
  assumes "distinct (map fst target)"
      and "list_all (\<lambda>k. \<not> is_array_index k) (map fst target)"
  shows "distinct (map fst h) \<Longrightarrow>
         named_properties (Object_assign target h) = overridden target h @ appended target h"
proof (induction h rule: rev_induct)
  case Nil
  have "named_properties target = target"
    using assms(2) by (induction target) (simp_all add: named_properties_def)
  moreover have "overridden target [] = target" by (simp add: overridden_def)
  ultimately show ?case by (simp add: Object_assign_def appended_def)
next
  case (snoc x h)
  obtain a v where x: "x = (a, v)" by (cases x)
  have dh: "distinct (map fst h)" and ah: "a \<notin> set (map fst h)"
    using snoc.prems x by auto
  have ih: "named_properties (Object_assign target h) = overridden target h @ appended target h"
    using snoc.IH dh by simp
  have step: "Object_assign target (h @ [(a, v)]) = set_property (Object_assign target h) a v"
    by (simp add: Object_assign_def)
  show ?case
  proof (cases "is_array_index a")
    case True
    then have "a \<notin> set (map fst target)" using assms(2) by (auto simp: list_all_iff)
    then show ?thesis
      using True ih by (simp add: step named_set_property overridden_snoc_absent x appended_def)
  next
    case False
    show ?thesis
    proof (cases "a \<in> set (map fst target)")
      case True
      then have "a \<in> set (map fst (overridden target h))" by (simp add: keys_overridden)
      then show ?thesis
        using False True ih ah assms(1)
        by (simp add: step named_set_property keys_Object_assign update_property_append
            overridden_snoc_update x appended_def del: set_map)
    next
      case False2: False
      then show ?thesis
        using False ih ah
        by (simp add: step named_set_property keys_Object_assign overridden_snoc_absent x
            appended_def del: set_map)
    qed
  qed
qed

subsection \<open>Digests and their hexadecimal form\<close>

lemma sha256_empty:
  "encodeHex (sha256 []) = ''e3b0c44298fc1c149afbf4c8996fb92427ae41e4649b934ca495991b7852b855''"
  by code_simp

lemma payloadHashString_empty:
  "payloadHashString [] = ''e3b0c44298fc1c149afbf4c8996fb92427ae41e4649b934ca495991b7852b855''"
  by (simp add: payloadHashString_def TextEncoder_encode_def sha256_empty)

lemma length_sha256_round: "length s = 8 \<Longrightarrow> length (sha256_round s kw) = 8"
proof -
  assume "length s = 8"
  then obtain a b c d e f g h where "s = [a, b, c, d, e, f, g, h]"
    by (auto simp: numeral_eq_Suc length_Suc_conv)
  then show ?thesis by (cases kw) (simp add: Let_def)
qed

lemma length_foldl_round: "length s = 8 \<Longrightarrow> length (foldl sha256_round s kws) = 8"
  by (induction kws arbitrary: s) (simp_all add: length_sha256_round)

lemma length_sha256_compress: "length hs = 8 \<Longrightarrow> length (sha256_compress hs block) = 8"
  by (simp add: sha256_compress_def length_foldl_round)

lemma length_foldl_compress: "length hs = 8 \<Longrightarrow> length (foldl sha256_compress hs bs) = 8"
  by (induction bs arbitrary: hs) (simp_all add: length_sha256_compress)

lemma length_concat_be32: "length (concat (map be32_bytes ws)) = 4 * length ws"
  by (induction ws) (simp_all add: be32_bytes_def)

lemma length_sha256: "length (sha256 m) = 32"
  by (simp add: sha256_def length_concat_be32 length_foldl_compress sha256_H0_def)

lemma length_encodeHex: "length (encodeHex bs) = 2 * length bs"
  by (induction bs) (simp_all add: encodeHex_def)

lemma hexDigit_lower: "n < 16 \<Longrightarrow> hexDigit n \<in> set ''0123456789abcdef''"
  unfolding hexDigit_def by (rule nth_mem) simp

lemma high_nibble: "unat (drop_bit 4 (b :: byte)) < 16"
proof -
  have "unat (drop_bit 4 b) = unat b div 2 ^ 4" by (simp add: drop_bit_eq_div unat_div)
  moreover have "unat b < 256" using unsigned_less [of b] by simp
  ultimately show ?thesis by simp
qed

lemma low_nibble: "unat ((b :: byte) AND 15) < 16"
proof -
  have "unat (b AND 15) \<le> unat (15 :: byte)"
    by (rule word_and_le1 [THEN word_le_nat_alt [THEN iffD1]])
  then show ?thesis by simp
qed

lemma set_encodeHex: "set (encodeHex bs) \<subseteq> set ''0123456789abcdef''"
proof (induction bs)
  case Nil
  then show ?case by (simp add: encodeHex_def)
next
  case (Cons b bs)
  have "hexDigit (unat (drop_bit 4 b)) \<in> set ''0123456789abcdef''"
    by (rule hexDigit_lower [OF high_nibble])
  moreover have "hexDigit (unat (b AND 15)) \<in> set ''0123456789abcdef''"
    by (rule hexDigit_lower [OF low_nibble])
  ultimately show ?case using Cons by (simp add: encodeHex_def)
qed

subsection \<open>What \<^verbatim>\<open>doRequest\<close> computes\<close>

lemma count_newline_method: "count_list (method_text m) (CHR 0x0A) = 0"
  by (cases m) simp_all

lemma join_Cons_nonempty: "x \<noteq> [] \<Longrightarrow> join sep (x # xs) \<noteq> []"
  by (cases xs) simp_all

lemma form_pair_nonempty: "form_pair p \<noteq> []"
  by (simp add: form_pair_def)

lemma not_index_Policy: "\<not> is_array_index ''Policy''" and not_index_ExternalId: "\<not> is_array_index ''ExternalId''"
  by (simp_all add: is_array_index_def is_digit_def)

lemma canonical_request_prepare:
  "canonical_request (prepare pf client method uri headers query payload timeoutMs timeString nonce)
     = canonicalRequest method uri (canonicalQueryString pf query)
         (canonicalHeaderString (canonicalHeaders pf (set_property
            (mergedHeaders client timeString nonce headers) ''x-acs-content-sha256''
            (payloadHashString (payloadString payload)))))
         (canonicalHeaderNameString (canonicalHeaders pf (set_property
            (mergedHeaders client timeString nonce headers) ''x-acs-content-sha256''
            (payloadHashString (payloadString payload)))))
         (payloadHashString (payloadString payload))"
  by (simp add: prepare_def Let_def)

lemma authorization_prepare:
  "authorization (prepare pf client method uri headers query payload timeoutMs timeString nonce)
     = authorizationHeader (accessKeyId client)
         (canonicalHeaderNameString (canonicalHeaders pf (set_property
            (mergedHeaders client timeString nonce headers) ''x-acs-content-sha256''
            (payloadHashString (payloadString payload)))))
         (sigString (accessKeySecret client) (string2sign (canonical_request
            (prepare pf client method uri headers query payload timeoutMs timeString nonce))))"
  by (simp add: prepare_def Let_def)

lemma payload_hash_prepare:
  "payload_hash (prepare pf client method uri headers query payload timeoutMs timeString nonce)
     = payloadHashString (payloadString payload)"
  by (simp add: prepare_def Let_def)

lemma init_headers_prepare:
  "init_headers (prepare pf client method uri headers query payload timeoutMs timeString nonce)
     = set_property
         (if payloadString payload \<noteq> []
          then set_property
                 (set_property
                    (set_property (mergedHeaders client timeString nonce headers)
                       ''x-acs-content-sha256''
                       (payload_hash (prepare pf client method uri headers query payload timeoutMs timeString nonce)))
                    ''Authorization''
                    (authorization (prepare pf client method uri headers query payload timeoutMs timeString nonce)))
                 ''Content-Length'' (decimal (length (TextEncoder_encode (payloadString payload))))
          else set_property
                 (set_property (mergedHeaders client timeString nonce headers)
                    ''x-acs-content-sha256''
                    (payload_hash (prepare pf client method uri headers query payload timeoutMs timeString nonce)))
                 ''Authorization''
                 (authorization (prepare pf client method uri headers query payload timeoutMs timeString nonce)))
         ''Content-Type'' ''application/x-www-form-urlencoded''"
  by (simp add: prepare_def Let_def)

lemma init_body_prepare:
  "init_body (prepare pf client method uri headers query payload timeoutMs timeString nonce)
     = (if payloadString payload \<noteq> [] then Some (TextEncoder_encode (payloadString payload)) else None)"
  by (simp add: prepare_def Let_def)

lemma map_of_mergedHeaders:
  "distinct (map fst headers) \<Longrightarrow>
   map_of (mergedHeaders client timeString nonce headers) x =
     (case map_of headers x of
        Some v \<Rightarrow> Some v
      | None \<Rightarrow>
          (case map_of defaultHeaders x of
             Some v \<Rightarrow> Some v
           | None \<Rightarrow>
               map_of [(''x-acs-signature-nonce'', nonce), (''x-acs-date'', timeString),
                       (''host'', endpoint client)] x))"
proof -
  assume d: "distinct (map fst headers)"
  have dd: "distinct (map fst defaultHeaders)" by (simp add: defaultHeaders_def)
  show ?thesis
    unfolding mergedHeaders_def
    by (simp only: map_of_Object_assign [OF d] map_of_Object_assign [OF dd])
qed

lemma map_of_init_headers:
  "map_of (init_headers (prepare pf client method uri headers query payload timeoutMs timeString nonce)) x =
     (if x = ''Content-Type'' then Some ''application/x-www-form-urlencoded''
      else if x = ''Content-Length'' \<and> payloadString payload \<noteq> []
        then Some (decimal (length (TextEncoder_encode (payloadString payload))))
      else if x = ''Authorization''
        then Some (authorization (prepare pf client method uri headers query payload timeoutMs timeString nonce))
      else if x = ''x-acs-content-sha256''
        then Some (payload_hash (prepare pf client method uri headers query payload timeoutMs timeString nonce))
      else map_of (mergedHeaders client timeString nonce headers) x)"
  unfolding init_headers_prepare
  by (simp add: map_of_set_property)

lemma assumeRole_payload_first:
  "\<exists>rest. assumeRole_payload config
     = (''DurationSeconds'', Some (Number_toString (durationSeconds config))) # rest"
  by (cases "externalId config")
     (simp_all add: assumeRole_payload_def Let_def set_property_def not_index_Policy not_index_ExternalId)

lemma member_JObject: "member (Some (JObject ps)) k = Inr (map_of ps k)"
  by simp

lemma canonicalRequest_headerString_inject:
  "(canonicalRequest method uri queryString hs1 names h = canonicalRequest method uri queryString hs2 names h)
     = (hs1 = hs2)"
  by (simp add: canonicalRequest_def)

subsection \<open>Independence of the order of the entries\<close>

lemma distinct_mergedHeaders: "distinct (map fst (mergedHeaders client timeString nonce headers))"
  by (simp add: mergedHeaders_def distinct_Object_assign)

lemma same_entries:
  assumes "distinct (map fst xs)" "distinct (map fst ys)" "set xs = set ys"
  shows "map_of xs = map_of ys"
  using assms by (simp add: map_of_inject_set)

lemma mset_signed_headers:
  assumes "distinct (map fst headers)" "distinct (map fst headers')" "set headers = set headers'"
  shows "mset (set_property (mergedHeaders client timeString nonce headers) k v)
       = mset (set_property (mergedHeaders client timeString nonce headers') k v)"
proof -
  let ?A = "set_property (mergedHeaders client timeString nonce headers) k v"
  let ?B = "set_property (mergedHeaders client timeString nonce headers') k v"
  have da: "distinct (map fst ?A)" and db: "distinct (map fst ?B)"
    by (simp_all add: distinct_set_property distinct_mergedHeaders)
  have "map_of headers = map_of headers'" using assms by (rule same_entries)
  then have "map_of ?A = map_of ?B"
    by (simp add: fun_eq_iff map_of_set_property map_of_mergedHeaders assms)
  then have "set ?A = set ?B" using da db by (simp add: map_of_inject_set)
  moreover have "distinct ?A" "distinct ?B" using da db by (simp_all add: distinct_map)
  ultimately show ?thesis by (simp add: set_eq_iff_mset_eq_distinct)
qed

lemma lower_digits: "list_all (\<lambda>c. lower_char c = c \<and> c \<noteq> CHR ''h'' \<and> c \<noteq> CHR ''x'') ''0123456789''"
  by code_simp

lemma lower_digit: "is_digit c \<Longrightarrow> lower_char c = c \<and> c \<noteq> CHR ''h'' \<and> c \<noteq> CHR ''x''"
  using lower_digits unfolding is_digit_def list_all_iff by blast

lemma digit_ascii: "is_digit c \<Longrightarrow> (of_char c :: nat) < 128"
  by (auto simp: is_digit_def)

lemma index_ascii: "is_array_index k \<Longrightarrow> is_ascii k"
  by (auto simp: is_array_index_def is_ascii_def list_all_iff digit_ascii)

lemma index_not_signed: "is_array_index k \<Longrightarrow> \<not> signed_name pf k"
proof -
  assume i: "is_array_index k"
  then obtain c cs where k: "k = c # cs" and d: "is_digit c"
    by (cases k) (auto simp: is_array_index_def)
  have "toLowerCase pf k = map lower_char k"
    using index_ascii [OF i] by (simp add: toLowerCase_def)
  then have "toLowerCase pf k = c # map lower_char cs"
    by (simp add: k lower_digit [OF d])
  moreover have "c \<noteq> CHR ''h''" "c \<noteq> CHR ''x''"
    using lower_digit [OF d] by simp_all
  ultimately show ?thesis by (simp add: signed_name_def startsWith_def)
qed

lemma signed_entries_named:
  "filter signed_header (map (\<lambda>p. (toLowerCase pf (fst p), trim (snd p))) obj)
     = filter signed_header (map (\<lambda>p. (toLowerCase pf (fst p), trim (snd p))) (named_properties obj))"
proof (induction obj)
  case Nil
  then show ?case by (simp add: named_properties_def)
next
  case (Cons p ps)
  have "signed_header (toLowerCase pf (fst p), trim (snd p)) = signed_name pf (fst p)"
    by (simp add: signed_header_def signed_name_def)
  then show ?case
    using Cons index_not_signed [of "fst p"] by (auto simp: named_properties_def)
qed

lemma class_filter:
  "filter (\<lambda>q. sortKey pf (fst q) = k)
     (filter signed_header (map (\<lambda>p. (toLowerCase pf (fst p), trim (snd p))) xs))
   = map (\<lambda>p. (toLowerCase pf (fst p), trim (snd p)))
       (filter (\<lambda>p. signed_name pf (fst p) \<and> sortKey pf (toLowerCase pf (fst p)) = k) xs)"
  by (induction xs) (simp_all add: signed_header_def signed_name_def)

lemma letter_first_not_index: "\<not> is_digit c \<Longrightarrow> \<not> is_array_index (c # cs)"
  by (simp add: is_array_index_def)

lemma mergedHeaders_target:
  "mergedHeaders client timeString nonce headers
     = Object_assign (merge_target client timeString nonce) headers"
proof -
  have n: "\<not> is_digit CHR ''x''" "\<not> is_digit CHR ''A''"
    by (simp_all add: is_digit_def)
  have "Object_assign
          [(''x-acs-signature-nonce'', nonce), (''x-acs-date'', timeString), (''host'', endpoint client)]
          defaultHeaders
        = merge_target client timeString nonce"
    by (simp add: Object_assign_def defaultHeaders_def set_property_def merge_target_def
        letter_first_not_index n)
  then show ?thesis by (simp add: mergedHeaders_def)
qed

lemma merge_target_keys:
  "map fst (merge_target client timeString nonce)
     = [''x-acs-signature-nonce'', ''x-acs-date'', ''host'', ''x-sdk-client'', ''x-acs-version'',
        ''Accept'']"
  by (simp add: merge_target_def)

lemma merge_target_named:
  "distinct (map fst (merge_target client timeString nonce))
   \<and> list_all (\<lambda>k. \<not> is_array_index k) (map fst (merge_target client timeString nonce))
   \<and> ''x-acs-content-sha256'' \<notin> set (map fst (merge_target client timeString nonce))"
proof -
  have n: "\<not> is_digit CHR ''x''" "\<not> is_digit CHR ''A''" "\<not> is_digit CHR ''h''"
    by (simp_all add: is_digit_def)
  show ?thesis
    unfolding merge_target_keys by (simp add: letter_first_not_index n)
qed

lemma named_allHeaders:
  assumes "distinct (map fst h)"
  shows "named_properties
           (set_property (mergedHeaders client timeString nonce h) ''x-acs-content-sha256'' v)
         = (if ''x-acs-content-sha256'' \<in> set (map fst h)
            then overridden (merge_target client timeString nonce) h
                   @ update_property (appended (merge_target client timeString nonce) h)
                       ''x-acs-content-sha256'' v
            else overridden (merge_target client timeString nonce) h
                   @ appended (merge_target client timeString nonce) h
                   @ [(''x-acs-content-sha256'', v)])"
proof -
  let ?T = "merge_target client timeString nonce"
  have n: "named_properties (Object_assign ?T h) = overridden ?T h @ appended ?T h"
    using merge_target_named assms by (simp add: named_Object_assign)
  have c: "\<not> is_array_index ''x-acs-content-sha256''"
    by (simp add: letter_first_not_index is_digit_def)
  have k: "''x-acs-content-sha256'' \<notin> set (map fst (overridden ?T h))"
    using merge_target_named [of client timeString nonce] by (simp only: keys_overridden) simp
  have m: "(''x-acs-content-sha256'' \<in> set (map fst (Object_assign ?T h)))
           = (''x-acs-content-sha256'' \<in> set (map fst h))"
    using merge_target_named [of client timeString nonce] by (simp only: keys_Object_assign) simp
  show ?thesis
    unfolding mergedHeaders_target named_set_property n
    using c k m by (simp only: update_property_append if_False if_True) simp
qed

lemma canonicalHeaders_order:
  assumes d: "distinct (map fst h)" and d': "distinct (map fst h')" and s: "set h = set h'"
      and i: "inj_on (\<lambda>k. sortKey pf (toLowerCase pf k)) (set (filter (signed_name pf) (map fst h)))"
  shows "canonicalHeaders pf
           (set_property (mergedHeaders client timeString nonce h) ''x-acs-content-sha256'' v)
       = canonicalHeaders pf
           (set_property (mergedHeaders client timeString nonce h') ''x-acs-content-sha256'' v)"
proof -
  let ?g = "\<lambda>p :: string \<times> string. (toLowerCase pf (fst p), trim (snd p))"
  let ?T = "merge_target client timeString nonce"
  let ?A = "set_property (mergedHeaders client timeString nonce h) ''x-acs-content-sha256'' v"
  let ?B = "set_property (mergedHeaders client timeString nonce h') ''x-acs-content-sha256'' v"
  have m: "mset ?A = mset ?B" using d d' s by (rule mset_signed_headers)
  have mo: "map_of h = map_of h'" using d d' s by (rule same_entries)
  have keys: "set (map fst h) = set (map fst h')" using s by simp
  have t: "filter (\<lambda>q. sortKey pf (fst q) = k) (filter signed_header (map ?g ?A))
         = filter (\<lambda>q. sortKey pf (fst q) = k) (filter signed_header (map ?g ?B))" for k
  proof -
    let ?Q = "\<lambda>p :: string \<times> string. signed_name pf (fst p) \<and> sortKey pf (toLowerCase pf (fst p)) = k"
    have one: "a = b" if "a \<in> set h" "b \<in> set h" "?Q a" "?Q b" for a b
    proof -
      have "fst a \<in> set (filter (signed_name pf) (map fst h))" "fst b \<in> set (filter (signed_name pf) (map fst h))"
        using that by auto
      moreover have "sortKey pf (toLowerCase pf (fst a)) = sortKey pf (toLowerCase pf (fst b))"
        using that by simp
      ultimately have "fst a = fst b" using i by (auto dest: inj_onD)
      moreover have "inj_on fst (set h)" using d by (simp add: distinct_map)
      ultimately show ?thesis using that(1,2) by (auto dest: inj_onD)
    qed
    have dh: "distinct h" "distinct h'" using d d' by (simp_all add: distinct_map)
    have ap: "filter ?Q (appended ?T h) = filter ?Q (appended ?T h')"
      unfolding appended_def filter_filter
      by (rule filter_at_most_one [OF dh s]) (use one in blast)
    have up: "filter ?Q (update_property (appended ?T h) ''x-acs-content-sha256'' v)
            = filter ?Q (update_property (appended ?T h') ''x-acs-content-sha256'' v)"
    proof -
      have key_only: "?Q p = ?Q q" if "fst p = fst q" for p q using that by simp
      show ?thesis
        by (simp only: filter_update_property [of ?Q, OF key_only] ap)
    qed
    have "filter ?Q (named_properties ?A) = filter ?Q (named_properties ?B)"
      using ap up keys
      by (simp add: named_allHeaders [OF d] named_allHeaders [OF d'] overridden_same [OF mo]
          del: set_map)
    then show ?thesis
      by (simp only: signed_entries_named [of pf ?A] signed_entries_named [of pf ?B] class_filter)
  qed
  have mm: "mset (filter signed_header (map ?g ?A)) = mset (filter signed_header (map ?g ?B))"
    using m by simp
  show ?thesis
    unfolding canonicalHeaders_def Array_sort_by_key
    by (rule sort_key_tie_groups [OF mm t])
qed

lemma canonicalQueryString_unique:
  assumes "distinct (map fst query)" "distinct (map fst query')" "set query = set query'"
      and i: "inj_on (sortKey pf) (set (map fst query))"
  shows "canonicalQueryString pf query = canonicalQueryString pf query'"
proof -
  have "distinct query" "distinct query'" using assms(1,2) by (simp_all add: distinct_map)
  then have m: "mset query = mset query'" using assms(3) by (simp add: set_eq_iff_mset_eq_distinct)
  have "distinct (map (sortKey pf) (map fst query))"
    unfolding distinct_map [of "sortKey pf"] using assms(1) i by blast
  then have d: "distinct (map (\<lambda>p. sortKey pf (fst p)) query)" by (simp add: comp_def)
  show ?thesis
    unfolding canonicalQueryString_def Array_sort_by_key
    using sort_key_unique [OF m d] by simp
qed

subsection \<open>Sorting two entries, and lower case on ASCII\<close>

lemma localeCompare_swap: "localeCompare pf a b < 0 \<Longrightarrow> \<not> localeCompare pf b a \<le> 0"
  by (auto simp: localeCompare_def split: if_splits)

lemma sort_two:
  "localeCompare pf (fst q) (fst p) < 0 \<Longrightarrow> Array_sort (by_key pf) [p, q] = [q, p]"
  "localeCompare pf (fst p) (fst q) \<le> 0 \<Longrightarrow> Array_sort (by_key pf) [p, q] = [p, q]"
  by (simp_all add: Array_sort_def by_key_def localeCompare_swap)

lemma toLowerCase_ascii: "is_ascii s \<Longrightarrow> toLowerCase pf s = map lower_char s"
  by (simp add: toLowerCase_def)

lemma signed_names_prepare:
  "signed_names (prepare pf client method uri headers query payload timeoutMs timeString nonce)
     = canonicalHeaderNameString (canonicalHeaders pf (set_property
         (mergedHeaders client timeString nonce headers) ''x-acs-content-sha256''
         (payloadHashString (payloadString payload))))"
  by (simp add: prepare_def Let_def)

lemma truthy_cases: "truthy (JObject ps)" "\<not> truthy JNull"
  by simp_all

subsection \<open>Test vectors\<close>

text \<open>
  SHA-256 of \<^verbatim>\<open>abc\<close> (FIPS 180-4), and HMAC-SHA256 of the text
  \<^verbatim>\<open>The quick brown fox jumps over the lazy dog\<close> under the key \<^verbatim>\<open>key\<close>: the inner and the
  outer hash are evaluated one after the other.
\<close>

lemma sha256_abc:
  "encodeHex (sha256 (TextEncoder_encode ''abc''))
     = ''ba7816bf8f01cfea414140de5dae2223b00361a396177a9cb410ff61f20015ad''"
  by code_simp

lemma hmac_inner:
  "sha256 (map (\<lambda>b. b XOR 0x36) (TextEncoder_encode ''key'' @ replicate 61 0)
            @ TextEncoder_encode ''The quick brown fox jumps over the lazy dog'')
     = [122, 208, 78, 90, 161, 158, 238, 114, 24, 44, 154, 117, 172, 113, 186, 19,
        131, 60, 83, 252, 77, 200, 200, 21, 206, 183, 148, 109, 86, 46, 54, 49]"
  by code_simp

lemma hmac_outer:
  "encodeHex (sha256 (map (\<lambda>b. b XOR 0x5c) (TextEncoder_encode ''key'' @ replicate 61 0)
            @ [122, 208, 78, 90, 161, 158, 238, 114, 24, 44, 154, 117, 172, 113, 186, 19,
               131, 60, 83, 252, 77, 200, 200, 21, 206, 183, 148, 109, 86, 46, 54, 49]))
     = ''f7bc83f430538424b13298e6aa6fb143ef4d59a14946175997479dbc2d1a3cd8''"
  by code_simp

lemma hmac_vector:
  "hmac ''key'' ''The quick brown fox jumps over the lazy dog''
     = ''f7bc83f430538424b13298e6aa6fb143ef4d59a14946175997479dbc2d1a3cd8''"
proof -
  have l: "length (TextEncoder_encode ''key'') = 3"
    by (simp add: TextEncoder_encode_def)
  have c: "((64 :: nat) < 3) = False" "(64 :: nat) - 3 = 61"
    by simp_all
  show ?thesis
    unfolding hmac_def hmac_sha256_def Let_def
    by (simp only: l c if_False hmac_inner hmac_outer)
qed

subsection \<open>The outcome of a call\<close>

lemma member_field:
  "member (Some j) k = (if j = JNull then Inl (PlatformError ''TypeError'') else Inr (field j k))"
  by (cases j) (simp_all add: field_def)

lemma member2_field:
  "member2 (Some j) k1 k2 =
     (if present j k1 then Inr (field (the (field j k1)) k2) else Inl (PlatformError ''TypeError''))"
proof (cases "field j k1")
  case None
  then show ?thesis
    by (cases j) (simp_all add: member2_def and_then_def present_def field_def)
next
  case (Some u)
  then show ?thesis
    by (cases j; cases u) (simp_all add: member2_def and_then_def present_def field_def)
qed

lemma present_not_null: "present j k \<Longrightarrow> j \<noteq> JNull"
  by (auto simp: present_def field_def)

lemma respond_below_400:
  "s < 400 \<Longrightarrow>
   respond (Response s (Inr j)) =
     (if present j ''AssumedRoleUser'' \<and> present j ''Credentials''
      then Inr \<lparr>requestId = field j ''RequestId'',
                assumedRoleId = field (the (field j ''AssumedRoleUser'')) ''AssumedRoleId'',
                arn = field (the (field j ''AssumedRoleUser'')) ''Arn'',
                securityToken = field (the (field j ''Credentials'')) ''SecurityToken'',
                credentialsAccessKeyId = field (the (field j ''Credentials'')) ''AccessKeyId'',
                credentialsAccessKeySecret = field (the (field j ''Credentials'')) ''AccessKeySecret'',
                expiration = field (the (field j ''Credentials'')) ''Expiration''\<rparr>
      else Inl (PlatformError ''TypeError''))"
  using present_not_null [of j "''AssumedRoleUser''"]
  by (auto simp: respond_def try_block_def response_json_def and_then_def member_field member2_field
      catch_block_def)

lemma respond_4xx:
  "400 \<le> s \<Longrightarrow> s < 500 \<Longrightarrow>
   respond (Response s (Inr j)) =
     (if j = JNull then Inl (PlatformError ''TypeError'')
      else case message_text (field j ''Message'') of
             Inl e \<Rightarrow> Inl (catch_block e)
           | Inr m \<Rightarrow> Inl (ClientError m (field j ''RequestId'') (field j ''HostId'')
                            (field j ''Code'') (field j ''Recommend'')))"
  by (auto simp: respond_def try_block_def response_json_def and_then_def member_field
      new_ClientError_def catch_block_def split: sum.splits)

lemma all_values_error:
  "all_values rs = Inl e \<Longrightarrow> e \<in> {x. Inl x \<in> set rs}"
  by (induction rs arbitrary: e) (auto split: sum.splits)

lemma ToString_error: "ToString j = Inl e \<Longrightarrow> e = PlatformError ''TypeError''"
proof (induction j arbitrary: e rule: ToString.induct)
  case (5 xs)
  from 5(2) obtain e' where "all_values (map (\<lambda>x. if x = JNull then Inr [] else ToString x) xs) = Inl e'"
      and "e' = e"
    by (auto simp: and_then_def split: sum.splits)
  then have "Inl e \<in> set (map (\<lambda>x. if x = JNull then Inr [] else ToString x) xs)"
    using all_values_error by fastforce
  then obtain x where "x \<in> set xs" "x \<noteq> JNull" "ToString x = Inl e"
    by (auto split: if_splits)
  then show ?case using 5(1) by blast
qed (auto split: if_splits)

lemma message_text_error: "message_text m = Inl e \<Longrightarrow> e = PlatformError ''TypeError''"
  by (cases m) (auto simp: message_text_def dest: ToString_error)

lemma respond_5xx:
  "500 \<le> s \<Longrightarrow>
   respond (Response s body)
     = Inl (ClientError ''response status code error'' None None (Some (JString (decimal s))) None)"
  by (simp add: respond_def try_block_def fromHttpError_def new_ClientError_def message_text_def
      and_then_def catch_block_def)

lemma respond_body_failed:
  "s < 500 \<Longrightarrow>
   respond (Response s (Inl n))
     = Inl (if n = ''TimeoutError'' then PlainError ''request timeout'' else PlatformError n)"
  by (simp add: respond_def try_block_def response_json_def and_then_def catch_block_def)

lemma respond_Rejected:
  "respond (Rejected n)
     = Inl (if n = ''TimeoutError'' then PlainError ''request timeout'' else PlatformError n)"
  by (simp add: respond_def try_block_def catch_block_def)

lemma respond_parsed:
  "respond (Response s (Inr x)) =
      (if 500 \<le> s
       then Inl (ClientError ''response status code error'' None None (Some (JString (decimal s))) None)
       else if 400 \<le> s
       then (if x \<noteq> JNull \<and> has_text (field x ''Message'')
             then Inl (ClientError (projr (message_text (field x ''Message''))) (field x ''RequestId'')
                         (field x ''HostId'') (field x ''Code'') (field x ''Recommend''))
             else Inl (PlatformError ''TypeError''))
       else (if present x ''AssumedRoleUser'' \<and> present x ''Credentials''
             then Inr \<lparr>requestId = field x ''RequestId'',
                assumedRoleId = field (the (field x ''AssumedRoleUser'')) ''AssumedRoleId'',
                arn = field (the (field x ''AssumedRoleUser'')) ''Arn'',
                securityToken = field (the (field x ''Credentials'')) ''SecurityToken'',
                credentialsAccessKeyId = field (the (field x ''Credentials'')) ''AccessKeyId'',
                credentialsAccessKeySecret = field (the (field x ''Credentials'')) ''AccessKeySecret'',
                expiration = field (the (field x ''Credentials'')) ''Expiration''\<rparr>
             else Inl (PlatformError ''TypeError'')))"
proof -
  consider "500 \<le> s" | "400 \<le> s" "s < 500" | "s < 400" by linarith
  then show ?thesis
  proof cases
    case 1
    then show ?thesis by (simp add: respond_5xx)
  next
    case 2
    then show ?thesis
      by (cases "message_text (field x ''Message'')")
         (auto simp: respond_4xx has_text_def catch_block_def dest: message_text_error)
  next
    case 3
    then show ?thesis by (simp add: respond_below_400)
  qed
qed

lemma fetch_result_cases:
  obtains (rejected) n where "r = Rejected n"
    | (status) s body where "r = Response s body" "500 \<le> s"
    | (unread) s n where "r = Response s (Inl n)" "s < 500"
    | (parsed) s j where "r = Response s (Inr j)" "s < 500"
proof (cases r)
  case (Rejected n)
  then show ?thesis using rejected by simp
next
  case (Response s body)
  show ?thesis
  proof (cases "500 \<le> s")
    case True
    then show ?thesis using Response status by simp
  next
    case False
    then show ?thesis using Response unread parsed by (cases body) auto
  qed
qed

section \<open>The claims\<close>

text \<open>
  C1, counterexample. Read literally, "each field followed by a single newline" ends the
  canonical request with a newline after the payload hash. The code's text has none: for
  \<^verbatim>\<open>GET /\<close> with empty query string, header string, header names and hash the two
  texts differ.
\<close>

theorem canonicalRequest_no_final_newline:
  "canonicalRequest GET ''/'' [] [] [] [] \<noteq> spec_canonicalRequest GET ''/'' [] [] [] []"
  by (simp add: canonicalRequest_def spec_canonicalRequest_def newline_def)

text \<open>
  C1, as amended. For every method, path, query string, header string, header names and
  payload hash, the canonical request is the seven fields method, path, canonical query
  string, canonical header string, an empty separator line, signed header names and
  payload hash, in this order, joined by single newlines: each field but the last is
  followed by one newline, and the payload hash ends the text. The specification's text is
  the code's text with one more newline at the end. No field is left out when it is
  empty: the text always holds the six separating newlines besides those inside the
  fields. This is the canonical request that \<^verbatim>\<open>doRequest\<close> signs.
\<close>

theorem canonicalRequest_fields:
  "canonicalRequest method uri queryString headerString headerNames payloadHash
     = join newline
         [method_text method, uri, queryString, headerString, [], headerNames, payloadHash]
   \<and> spec_canonicalRequest method uri queryString headerString headerNames payloadHash
     = canonicalRequest method uri queryString headerString headerNames payloadHash @ newline
   \<and> count_list (canonicalRequest method uri queryString headerString headerNames payloadHash)
        (CHR 0x0A)
     = 6 + count_list uri (CHR 0x0A) + count_list queryString (CHR 0x0A)
         + count_list headerString (CHR 0x0A) + count_list headerNames (CHR 0x0A)
         + count_list payloadHash (CHR 0x0A)
   \<and> canonical_request (prepare pf client method uri headers query payload timeoutMs timeString nonce)
     = canonicalRequest method uri (canonicalQueryString pf query)
         (canonicalHeaderString (canonicalHeaders pf (set_property
            (mergedHeaders client timeString nonce headers) ''x-acs-content-sha256''
            (payloadHashString (payloadString payload)))))
         (canonicalHeaderNameString (canonicalHeaders pf (set_property
            (mergedHeaders client timeString nonce headers) ''x-acs-content-sha256''
            (payloadHashString (payloadString payload)))))
         (payloadHashString (payloadString payload))"
  by (simp add: canonicalRequest_def spec_canonicalRequest_def newline_def count_newline_method
      prepare_def Let_def)

text \<open>
  C2, counterexample. The code sorts with \<^verbatim>\<open>localeCompare\<close>, which in the root collation
  (and in English) puts \<^verbatim>\<open>a\<close> before \<^verbatim>\<open>B\<close>; the order of the code points puts \<^verbatim>\<open>B\<close> (66)
  before \<^verbatim>\<open>a\<close> (97). For the query \<^verbatim>\<open>{B: "2", a: "1"}\<close> the code yields \<^verbatim>\<open>a=1&B=2\<close>, the
  specification \<^verbatim>\<open>B=2&a=1\<close>.
\<close>

theorem canonicalQueryString_not_codepoint_order:
  "canonicalQueryString root_locale [(''B'', Some ''2''), (''a'', Some ''1'')] = ''a=1&B=2''
   \<and> spec_canonicalQueryString [(''B'', Some ''2''), (''a'', Some ''1'')] = ''B=2&a=1''
   \<and> canonicalQueryString root_locale [(''B'', Some ''2''), (''a'', Some ''1'')]
     \<noteq> spec_canonicalQueryString [(''B'', Some ''2''), (''a'', Some ''1'')]"
  by code_simp

text \<open>
  C2, as amended. On every platform and for every query mapping, the canonical query
  string is obtained by sorting the entries by key with \<^verbatim>\<open>localeCompare\<close> (the collation of
  the locale, not the order of the code points): the sorted list is the stable sort of
  the entries by the sort key of their keys, so it holds the same entries and is
  ascending. Each key and value is percent-encoded: the unreserved characters
  \<^verbatim>\<open>A-Z a-z 0-9 - _ . ! ~ * ' ( )\<close> stay, every other byte of the UTF-8 encoding becomes
  \<^verbatim>\<open>%XX\<close> with upper-case digits (a space \<^verbatim>\<open>%20\<close>, \<^verbatim>\<open>&\<close> \<^verbatim>\<open>%26\<close>, \<^verbatim>\<open>=\<close> \<^verbatim>\<open>%3D\<close>, \<^verbatim>\<open>/\<close> \<^verbatim>\<open>%2F\<close>,
  U+00E9 \<^verbatim>\<open>%C3%A9\<close>). An empty or missing value gives the bare key with its \<^verbatim>\<open>=\<close>, and the
  pairs are joined with \<^verbatim>\<open>&\<close>. The empty mapping yields the empty string, and where \<^verbatim>\<open>a\<close>
  sorts before \<^verbatim>\<open>b\<close> the mapping \<^verbatim>\<open>{b: "2", a: "1"}\<close> yields \<^verbatim>\<open>a=1&b=2\<close>.
\<close>

theorem canonicalQueryString_sorted:
  "canonicalQueryString pf query = join ''&'' (map form_pair (Array_sort (by_key pf) query))
   \<and> Array_sort (by_key pf) query = sort_key (\<lambda>p. sortKey pf (fst p)) query
   \<and> mset (Array_sort (by_key pf) query) = mset query
   \<and> sorted_wrt (\<lambda>p q. localeCompare pf (fst p) (fst q) \<le> 0) (Array_sort (by_key pf) query)
   \<and> form_pair (k, Some v) = encodeURIComponent k @ ''='' @ encodeURIComponent v
   \<and> form_pair (k, Some []) = encodeURIComponent k @ ''=''
   \<and> form_pair (k, None) = encodeURIComponent k @ ''=''
   \<and> encodeURIComponent (''AZaz09-_.!~*()'' @ [CHR 0x27]) = ''AZaz09-_.!~*()'' @ [CHR 0x27]
   \<and> encodeURIComponent ''a b&c=d/e?f+g,h:i;j@k$l#m%n''
     = ''a%20b%26c%3Dd%2Fe%3Ff%2Bg%2Ch%3Ai%3Bj%40k%24l%23m%25n''
   \<and> encodeURIComponent [CHR 0xC3, CHR 0xA9, CHR 0x0A] = ''%C3%A9%0A''
   \<and> canonicalQueryString pf [] = []
   \<and> canonicalQueryString pf [(''a b'', Some ''c&d=/'')] = ''a%20b=c%26d%3D%2F''
   \<and> canonicalQueryString pf [(''k'', None)] = ''k=''
   \<and> (localeCompare pf ''a'' ''b'' < 0 \<longrightarrow>
        canonicalQueryString pf [(''b'', Some ''2''), (''a'', Some ''1'')] = ''a=1&b=2'')"
proof -
  have e1: "encodeURIComponent (''AZaz09-_.!~*()'' @ [CHR 0x27]) = ''AZaz09-_.!~*()'' @ [CHR 0x27]"
    by code_simp
  have e2: "encodeURIComponent ''a b&c=d/e?f+g,h:i;j@k$l#m%n''
     = ''a%20b%26c%3Dd%2Fe%3Ff%2Bg%2Ch%3Ai%3Bj%40k%24l%23m%25n''"
    by code_simp
  have e3: "encodeURIComponent [CHR 0xC3, CHR 0xA9, CHR 0x0A] = ''%C3%A9%0A''"
    by code_simp
  have p1: "form_pair (''a b'', Some ''c&d=/'') = ''a%20b=c%26d%3D%2F''"
    by code_simp
  have p2: "form_pair (''k'', None) = ''k=''"
    by code_simp
  have p3: "form_pair (''a'', Some ''1'') = ''a=1''" "form_pair (''b'', Some ''2'') = ''b=2''"
    by code_simp+
  have q0: "canonicalQueryString pf [] = []"
    by (simp add: canonicalQueryString_def Array_sort_def)
  have q1: "canonicalQueryString pf [(''a b'', Some ''c&d=/'')] = ''a%20b=c%26d%3D%2F''"
    by (simp add: canonicalQueryString_def Array_sort_def p1)
  have q2: "canonicalQueryString pf [(''k'', None)] = ''k=''"
    by (simp add: canonicalQueryString_def Array_sort_def p2)
  have q3: "localeCompare pf ''a'' ''b'' < 0 \<longrightarrow>
        canonicalQueryString pf [(''b'', Some ''2''), (''a'', Some ''1'')] = ''a=1&b=2''"
    by (simp add: canonicalQueryString_def sort_two(1) p3)
  have f: "form_pair (k, Some v) = encodeURIComponent k @ ''='' @ encodeURIComponent v"
      "form_pair (k, Some []) = encodeURIComponent k @ ''=''"
      "form_pair (k, None) = encodeURIComponent k @ ''=''"
    by (simp_all add: form_pair_def encodeURIComponent_def)
  have g1: "canonicalQueryString pf query = join ''&'' (map form_pair (Array_sort (by_key pf) query))"
    by (simp add: canonicalQueryString_def)
  have g2: "Array_sort (by_key pf) query = sort_key (\<lambda>p. sortKey pf (fst p)) query"
    by (rule Array_sort_by_key)
  have g3: "mset (Array_sort (by_key pf) query) = mset query"
    by (rule mset_Array_sort)
  have g4: "sorted_wrt (\<lambda>p q. localeCompare pf (fst p) (fst q) \<le> 0) (Array_sort (by_key pf) query)"
    by (rule sorted_Array_sort)
  show ?thesis
    using g1 g2 g3 g4 f e1 e2 e3 q0 q1 q2 q3 by blast
qed

text \<open>C2, witness: in the root collation \<^verbatim>\<open>a\<close> sorts before \<^verbatim>\<open>b\<close>.\<close>

theorem canonicalQueryString_sorted_witness:
  "localeCompare root_locale ''a'' ''b'' < 0
   \<and> canonicalQueryString root_locale [(''b'', Some ''2''), (''a'', Some ''1'')] = ''a=1&b=2''"
proof -
  have l: "localeCompare root_locale ''a'' ''b'' < 0"
    by code_simp
  show ?thesis
    using canonicalQueryString_sorted [of root_locale "[]" "[]" "[]"] l by simp
qed

text \<open>
  C3, counterexample. The header mapping that \<^verbatim>\<open>doRequest\<close> canonicalises is never the
  caller's alone: it holds the injected \<^verbatim>\<open>x-acs-signature-nonce\<close>, \<^verbatim>\<open>x-acs-date\<close> and \<^verbatim>\<open>host\<close>,
  the defaults of the client, and \<^verbatim>\<open>x-acs-content-sha256\<close>. A caller who passes
  \<^verbatim>\<open>{"Host": "x", "X-Acs-Date": "t", "Unrelated": "y"}\<close> adds two names beside the injected
  \<^verbatim>\<open>host\<close> and \<^verbatim>\<open>x-acs-date\<close> (a JavaScript object tells \<^verbatim>\<open>Host\<close> from \<^verbatim>\<open>host\<close>): seven names
  are signed, not \<^verbatim>\<open>host;x-acs-date\<close>.
\<close>

theorem signed_names_of_a_call:
  "signed_names (prepare root_locale (new_StsClient ''sts.aliyuncs.com'' ''id'' ''secret'') GET ''/''
      [(''Host'', ''x''), (''X-Acs-Date'', ''t''), (''Unrelated'', ''y'')] [] None None
      ''2024-01-01T00:00:00Z'' ''1704067200000'')
     = ''host;host;x-acs-content-sha256;x-acs-date;x-acs-date;x-acs-signature-nonce;x-acs-version''
   \<and> signed_names (prepare root_locale (new_StsClient ''sts.aliyuncs.com'' ''id'' ''secret'') GET ''/''
      [(''Host'', ''x''), (''X-Acs-Date'', ''t''), (''Unrelated'', ''y'')] [] None None
      ''2024-01-01T00:00:00Z'' ''1704067200000'')
     \<noteq> ''host;x-acs-date''"
proof -
  let ?H = "''e3b0c44298fc1c149afbf4c8996fb92427ae41e4649b934ca495991b7852b855''"
  let ?c = "new_StsClient ''sts.aliyuncs.com'' ''id'' ''secret''"
  have p: "payloadHashString (payloadString None) = ?H"
    by (simp add: payloadString_def payloadHashString_empty)
  have a: "canonicalHeaders root_locale (set_property (mergedHeaders ?c ''2024-01-01T00:00:00Z''
              ''1704067200000'' [(''Host'', ''x''), (''X-Acs-Date'', ''t''), (''Unrelated'', ''y'')])
              ''x-acs-content-sha256'' ?H)
           = [(''host'', ''sts.aliyuncs.com''), (''host'', ''x''), (''x-acs-content-sha256'', ?H),
              (''x-acs-date'', ''2024-01-01T00:00:00Z''), (''x-acs-date'', ''t''),
              (''x-acs-signature-nonce'', ''1704067200000''),
              (''x-acs-version'', ''2015-04-01'')]"
    unfolding canonicalHeaders_decorated by code_simp
  show ?thesis
    unfolding signed_names_prepare p a by (simp add: canonicalHeaderNameString_def)
qed

text \<open>
  C3, as amended. On every platform and for every header mapping handed to the
  canonicalisation, the canonical headers are exactly the entries whose lower-cased name
  is \<^verbatim>\<open>host\<close> or starts with \<^verbatim>\<open>x-acs-\<close>, each with its name lower-cased and its value
  trimmed of the white space at both ends (the space inside a value stays), in the stable
  order of \<^verbatim>\<open>localeCompare\<close> on the lower-cased names. The canonical header string joins
  them as \<^verbatim>\<open>name:value\<close> lines with a newline, and the signed header names are the same
  names joined with a semicolon. In \<^verbatim>\<open>doRequest\<close> the mapping handed over is the outgoing
  one: the caller's headers merged over the injected headers and the defaults, with the
  content hash. Where \<^verbatim>\<open>host\<close> sorts before \<^verbatim>\<open>x-acs-date\<close>, the mapping
  \<^verbatim>\<open>{"Host": "x", "X-Acs-Date": "t", "Unrelated": "y"}\<close> yields only \<^verbatim>\<open>host\<close> and
  \<^verbatim>\<open>x-acs-date\<close> and the names \<^verbatim>\<open>host;x-acs-date\<close>, and so does a mapping with the names in
  upper case, in another order and with white space around the values.
\<close>

theorem canonicalHeaders_selected_sorted:
  "canonicalHeaderString (canonicalHeaders pf hs)
     = join newline (map (\<lambda>p. fst p @ '':'' @ snd p) (canonicalHeaders pf hs))
   \<and> canonicalHeaderNameString (canonicalHeaders pf hs) = join '';'' (map fst (canonicalHeaders pf hs))
   \<and> mset (canonicalHeaders pf hs)
     = image_mset (\<lambda>p. (toLowerCase pf (fst p), trim (snd p)))
         (filter_mset (\<lambda>p. toLowerCase pf (fst p) = ''host'' \<or> startsWith (toLowerCase pf (fst p)) ''x-acs-'')
            (mset hs))
   \<and> sorted_wrt (\<lambda>p q. localeCompare pf (fst p) (fst q) \<le> 0) (canonicalHeaders pf hs)
   \<and> canonicalHeaders pf hs
     = sort_key (\<lambda>p. sortKey pf (fst p))
         (filter (\<lambda>p. fst p = ''host'' \<or> startsWith (fst p) ''x-acs-'')
            (map (\<lambda>p. (toLowerCase pf (fst p), trim (snd p))) hs))
   \<and> signed_names (prepare pf client method uri headers query payload timeoutMs timeString nonce)
     = canonicalHeaderNameString (canonicalHeaders pf (set_property
         (mergedHeaders client timeString nonce headers) ''x-acs-content-sha256''
         (payloadHashString (payloadString payload))))
   \<and> toLowerCase pf ''X-Acs-Date'' = ''x-acs-date''
   \<and> toLowerCase pf ''HOST'' = ''host''
   \<and> trim ('' x'' @ [CHR 0x09]) = ''x''
   \<and> trim ([CHR 0xC2, CHR 0xA0, CHR 0x0D, CHR 0x0A] @ ''a  b'' @ [CHR 0xE2, CHR 0x80, CHR 0x89, CHR 0x20])
     = ''a  b''
   \<and> trim ''t'' = ''t''
   \<and> (localeCompare pf ''host'' ''x-acs-date'' < 0 \<longrightarrow>
        canonicalHeaders pf [(''Host'', ''x''), (''X-Acs-Date'', ''t''), (''Unrelated'', ''y'')]
          = [(''host'', ''x''), (''x-acs-date'', ''t'')]
        \<and> canonicalHeaderString
             (canonicalHeaders pf [(''Host'', ''x''), (''X-Acs-Date'', ''t''), (''Unrelated'', ''y'')])
          = ''host:x'' @ newline @ ''x-acs-date:t''
        \<and> canonicalHeaderNameString
             (canonicalHeaders pf [(''Host'', ''x''), (''X-Acs-Date'', ''t''), (''Unrelated'', ''y'')])
          = ''host;x-acs-date''
        \<and> canonicalHeaders pf [(''X-ACS-Date'', [CHR 0x09] @ ''t ''), (''Unrelated'', ''y''),
                                (''HOST'', '' x'' @ [CHR 0xC2, CHR 0xA0])]
          = [(''host'', ''x''), (''x-acs-date'', ''t'')])"
proof -
  have low: "toLowerCase pf ''X-Acs-Date'' = ''x-acs-date''" "toLowerCase pf ''HOST'' = ''host''"
      "toLowerCase pf ''Host'' = ''host''" "toLowerCase pf ''Unrelated'' = ''unrelated''"
      "toLowerCase pf ''X-ACS-Date'' = ''x-acs-date''"
    by (subst toLowerCase_ascii, code_simp, code_simp)+
  have tr: "trim ('' x'' @ [CHR 0x09]) = ''x''"
      "trim ([CHR 0xC2, CHR 0xA0, CHR 0x0D, CHR 0x0A] @ ''a  b'' @ [CHR 0xE2, CHR 0x80, CHR 0x89, CHR 0x20])
         = ''a  b''"
      "trim ''t'' = ''t''" "trim ''x'' = ''x''" "trim ''y'' = ''y''"
      "trim ([CHR 0x09] @ ''t '') = ''t''" "trim ('' x'' @ [CHR 0xC2, CHR 0xA0]) = ''x''"
    by code_simp+
  have sel: "signed_header (''host'', v)" "signed_header (''x-acs-date'', v)"
      "\<not> signed_header (''unrelated'', v)" for v
    by (simp_all add: signed_header_def startsWith_def)
  have ex: "canonicalHeaders pf [(''Host'', ''x''), (''X-Acs-Date'', ''t''), (''Unrelated'', ''y'')]
          = [(''host'', ''x''), (''x-acs-date'', ''t'')]"
    if "localeCompare pf ''host'' ''x-acs-date'' < 0"
    using that tr(3,4,5) by (simp add: canonicalHeaders_def low sel sort_two(2))
  have ex2: "canonicalHeaders pf [(''X-ACS-Date'', [CHR 0x09] @ ''t ''), (''Unrelated'', ''y''),
                                (''HOST'', '' x'' @ [CHR 0xC2, CHR 0xA0])]
          = [(''host'', ''x''), (''x-acs-date'', ''t'')]"
    if "localeCompare pf ''host'' ''x-acs-date'' < 0"
    using that tr(5,6,7) by (simp add: canonicalHeaders_def low sel sort_two(1))
  have exs: "canonicalHeaderString [(''host'', ''x''), (''x-acs-date'', ''t'')]
               = ''host:x'' @ newline @ ''x-acs-date:t''"
      "canonicalHeaderNameString [(''host'', ''x''), (''x-acs-date'', ''t'')] = ''host;x-acs-date''"
    by (simp_all add: canonicalHeaderString_def canonicalHeaderNameString_def)
  have all: "localeCompare pf ''host'' ''x-acs-date'' < 0 \<longrightarrow>
        canonicalHeaders pf [(''Host'', ''x''), (''X-Acs-Date'', ''t''), (''Unrelated'', ''y'')]
          = [(''host'', ''x''), (''x-acs-date'', ''t'')]
        \<and> canonicalHeaderString
             (canonicalHeaders pf [(''Host'', ''x''), (''X-Acs-Date'', ''t''), (''Unrelated'', ''y'')])
          = ''host:x'' @ newline @ ''x-acs-date:t''
        \<and> canonicalHeaderNameString
             (canonicalHeaders pf [(''Host'', ''x''), (''X-Acs-Date'', ''t''), (''Unrelated'', ''y'')])
          = ''host;x-acs-date''
        \<and> canonicalHeaders pf [(''X-ACS-Date'', [CHR 0x09] @ ''t ''), (''Unrelated'', ''y''),
                                (''HOST'', '' x'' @ [CHR 0xC2, CHR 0xA0])]
          = [(''host'', ''x''), (''x-acs-date'', ''t'')]"
    using ex ex2 exs by (simp del: append.simps)
  have g1: "canonicalHeaderString (canonicalHeaders pf hs)
     = join newline (map (\<lambda>p. fst p @ '':'' @ snd p) (canonicalHeaders pf hs))"
    by (simp add: canonicalHeaderString_def)
  have g2: "canonicalHeaderNameString (canonicalHeaders pf hs) = join '';'' (map fst (canonicalHeaders pf hs))"
    by (simp add: canonicalHeaderNameString_def)
  have g3: "canonicalHeaders pf hs
     = sort_key (\<lambda>p. sortKey pf (fst p))
         (filter (\<lambda>p. fst p = ''host'' \<or> startsWith (fst p) ''x-acs-'')
            (map (\<lambda>p. (toLowerCase pf (fst p), trim (snd p))) hs))"
    by (simp add: canonicalHeaders_def Array_sort_by_key signed_header_def [abs_def])
  have m: "mset (canonicalHeaders pf hs)
     = image_mset (\<lambda>p. (toLowerCase pf (fst p), trim (snd p)))
         (filter_mset (\<lambda>p. toLowerCase pf (fst p) = ''host'' \<or> startsWith (toLowerCase pf (fst p)) ''x-acs-'')
            (mset hs))"
  proof -
    have "filter signed_header (map (\<lambda>p. (toLowerCase pf (fst p), trim (snd p))) hs)
          = map (\<lambda>p. (toLowerCase pf (fst p), trim (snd p)))
              (filter (\<lambda>p. toLowerCase pf (fst p) = ''host'' \<or> startsWith (toLowerCase pf (fst p)) ''x-acs-'') hs)"
      by (induction hs) (simp_all add: signed_header_def)
    then show ?thesis
      by (simp add: canonicalHeaders_def mset_Array_sort flip: mset_filter mset_map)
  qed
  have s: "sorted_wrt (\<lambda>p q. localeCompare pf (fst p) (fst q) \<le> 0) (canonicalHeaders pf hs)"
    by (simp add: canonicalHeaders_def sorted_Array_sort)
  have g4: "signed_names (prepare pf client method uri headers query payload timeoutMs timeString nonce)
     = canonicalHeaderNameString (canonicalHeaders pf (set_property
         (mergedHeaders client timeString nonce headers) ''x-acs-content-sha256''
         (payloadHashString (payloadString payload))))"
    by (rule signed_names_prepare)
  show ?thesis
    using g1 g2 m s g3 g4 low(1,2) tr(1,2,3) all
    by blast
qed

text \<open>C3, witness: in the root collation \<^verbatim>\<open>host\<close> sorts before \<^verbatim>\<open>x-acs-date\<close>.\<close>

theorem canonicalHeaders_selected_sorted_witness:
  "localeCompare root_locale ''host'' ''x-acs-date'' < 0
   \<and> canonicalHeaders root_locale [(''Host'', ''x''), (''X-Acs-Date'', ''t''), (''Unrelated'', ''y'')]
     = [(''host'', ''x''), (''x-acs-date'', ''t'')]
   \<and> canonicalHeaderNameString
        (canonicalHeaders root_locale [(''Host'', ''x''), (''X-Acs-Date'', ''t''), (''Unrelated'', ''y'')])
     = ''host;x-acs-date''
   \<and> canonicalHeaders root_locale [(''X-ACS-Date'', [CHR 0x09] @ ''t ''), (''Unrelated'', ''y''),
                                     (''HOST'', '' x'' @ [CHR 0xC2, CHR 0xA0])]
     = [(''host'', ''x''), (''x-acs-date'', ''t'')]"
proof -
  have l: "localeCompare root_locale ''host'' ''x-acs-date'' < 0"
    by code_simp
  show ?thesis
    using canonicalHeaders_selected_sorted [of root_locale "[]" "new_StsClient [] [] []" GET "[]" "[]" "[]" None None "[]" "[]"] l
    by blast
qed

text \<open>
  C4. For a request whose body is absent (\<^verbatim>\<open>null\<close>) or empty (\<^verbatim>\<open>{}\<close>), the payload hash is
  the SHA-256 digest of the empty byte sequence in hexadecimal; for every request the
  payload hash is the hexadecimal digest of the bytes of the body, and the outgoing
  headers hold it under \<^verbatim>\<open>x-acs-content-sha256\<close>.
\<close>

theorem payload_hash_header:
  "(payload = None \<or> payload = Some [] \<longrightarrow>
      payload_hash (prepare pf client method uri headers query payload timeoutMs timeString nonce)
        = ''e3b0c44298fc1c149afbf4c8996fb92427ae41e4649b934ca495991b7852b855'')
   \<and> payload_hash (prepare pf client method uri headers query payload timeoutMs timeString nonce)
        = encodeHex (sha256 (TextEncoder_encode (payloadString payload)))
   \<and> map_of (init_headers (prepare pf client method uri headers query payload timeoutMs timeString nonce))
        ''x-acs-content-sha256''
        = Some (payload_hash (prepare pf client method uri headers query payload timeoutMs timeString nonce))"
proof -
  have e: "payload = None \<or> payload = Some [] \<Longrightarrow> payloadString payload = []"
    by (auto simp: payloadString_def)
  have a: "payload = None \<or> payload = Some [] \<longrightarrow>
      payload_hash (prepare pf client method uri headers query payload timeoutMs timeString nonce)
        = ''e3b0c44298fc1c149afbf4c8996fb92427ae41e4649b934ca495991b7852b855''"
    using e by (auto simp: payload_hash_prepare payloadHashString_empty)
  have b: "payload_hash (prepare pf client method uri headers query payload timeoutMs timeString nonce)
        = encodeHex (sha256 (TextEncoder_encode (payloadString payload)))"
    by (simp add: payload_hash_prepare payloadHashString_def)
  have c: "map_of (init_headers (prepare pf client method uri headers query payload timeoutMs timeString nonce))
        ''x-acs-content-sha256''
        = Some (payload_hash (prepare pf client method uri headers query payload timeoutMs timeString nonce))"
    by (simp add: map_of_init_headers)
  show ?thesis using a b c by blast
qed

text \<open>C4, witness: a \<^verbatim>\<open>GET\<close> request without a body.\<close>

theorem payload_hash_header_witness:
  "payload_hash (prepare root_locale (new_StsClient ''sts.aliyuncs.com'' ''id'' ''secret'') GET ''/'' [] [] None None
      ''2024-01-01T00:00:00Z'' ''1704067200000'')
     = ''e3b0c44298fc1c149afbf4c8996fb92427ae41e4649b934ca495991b7852b855''
   \<and> map_of (init_headers (prepare root_locale (new_StsClient ''sts.aliyuncs.com'' ''id'' ''secret'') GET ''/'' [] []
        None None ''2024-01-01T00:00:00Z'' ''1704067200000'')) ''x-acs-content-sha256''
     = Some ''e3b0c44298fc1c149afbf4c8996fb92427ae41e4649b934ca495991b7852b855''"
  using payload_hash_header [of None root_locale "new_StsClient ''sts.aliyuncs.com'' ''id'' ''secret''" GET "''/''" "[]" "[]" None
      "''2024-01-01T00:00:00Z''" "''1704067200000''"]
  by simp

text \<open>
  C5. For every canonical request the string to sign is the line \<^verbatim>\<open>ACS3-HMAC-SHA256\<close>, a
  newline and the SHA-256 digest of the canonical request as 64 lower-case hexadecimal
  digits: for the canonical request \<^verbatim>\<open>abc\<close> the digest is \<^verbatim>\<open>ba7816bf...f20015ad\<close>. For every
  secret the signature is HMAC-SHA256, keyed by the UTF-8 bytes of the secret as they
  are, of the bytes of the string to sign, again as 64 lower-case hexadecimal digits: for
  the secret \<^verbatim>\<open>key\<close> and the text \<^verbatim>\<open>The quick brown fox jumps over the lazy dog\<close> it is
  \<^verbatim>\<open>f7bc83f4...2d1a3cd8\<close>. The signature of \<^verbatim>\<open>doRequest\<close> is this one, for the secret of the
  client and the canonical request of the call.
\<close>

theorem string2sign_and_signature:
  "string2sign canonical
     = ''ACS3-HMAC-SHA256'' @ newline @ encodeHex (sha256 (TextEncoder_encode canonical))
   \<and> length (encodeHex (sha256 (TextEncoder_encode canonical))) = 64
   \<and> set (encodeHex (sha256 (TextEncoder_encode canonical))) \<subseteq> set ''0123456789abcdef''
   \<and> string2sign ''abc''
     = ''ACS3-HMAC-SHA256'' @ newline
         @ ''ba7816bf8f01cfea414140de5dae2223b00361a396177a9cb410ff61f20015ad''
   \<and> sigString secret toSign
     = encodeHex (hmac_sha256 (TextEncoder_encode secret) (TextEncoder_encode toSign))
   \<and> length (sigString secret toSign) = 64
   \<and> set (sigString secret toSign) \<subseteq> set ''0123456789abcdef''
   \<and> sigString ''key'' ''The quick brown fox jumps over the lazy dog''
     = ''f7bc83f430538424b13298e6aa6fb143ef4d59a14946175997479dbc2d1a3cd8''
   \<and> signature (prepare pf client method uri headers query payload timeoutMs timeString nonce)
     = sigString (accessKeySecret client)
         (string2sign (canonical_request
            (prepare pf client method uri headers query payload timeoutMs timeString nonce)))"
proof -
  have l: "length (hmac_sha256 k m) = 32" for k m
    by (simp add: hmac_sha256_def Let_def length_sha256)
  have p: "signature (prepare pf client method uri headers query payload timeoutMs timeString nonce)
     = sigString (accessKeySecret client)
         (string2sign (canonical_request
            (prepare pf client method uri headers query payload timeoutMs timeString nonce)))"
    by (simp add: prepare_def Let_def)
  have s1: "set (encodeHex (sha256 (TextEncoder_encode canonical))) \<subseteq> set ''0123456789abcdef''"
    by (rule set_encodeHex)
  have s2: "set (sigString secret toSign) \<subseteq> set ''0123456789abcdef''"
    unfolding sigString_def hmac_def by (rule set_encodeHex)
  have l1: "length (encodeHex (sha256 (TextEncoder_encode canonical))) = 64"
    by (simp add: length_encodeHex length_sha256)
  have l2: "length (sigString secret toSign) = 64"
    by (simp add: sigString_def hmac_def length_encodeHex l)
  have d1: "string2sign canonical
     = ''ACS3-HMAC-SHA256'' @ newline @ encodeHex (sha256 (TextEncoder_encode canonical))"
    by (simp add: string2sign_def)
  have d2: "sigString secret toSign
     = encodeHex (hmac_sha256 (TextEncoder_encode secret) (TextEncoder_encode toSign))"
    by (simp add: sigString_def hmac_def)
  have v1: "string2sign ''abc''
     = ''ACS3-HMAC-SHA256'' @ newline
         @ ''ba7816bf8f01cfea414140de5dae2223b00361a396177a9cb410ff61f20015ad''"
    by (simp only: string2sign_def sha256_abc)
  have v2: "sigString ''key'' ''The quick brown fox jumps over the lazy dog''
     = ''f7bc83f430538424b13298e6aa6fb143ef4d59a14946175997479dbc2d1a3cd8''"
    by (simp only: sigString_def hmac_vector)
  show ?thesis using d1 l1 s1 v1 d2 l2 s2 v2 p by blast
qed

text \<open>
  C6. For every access key id, signed header names and signature, the authorization
  value is the algorithm identifier, exactly one space, and \<^verbatim>\<open>Credential\<close>, \<^verbatim>\<open>SignedHeaders\<close>
  and \<^verbatim>\<open>Signature\<close> as \<^verbatim>\<open>Key=Value\<close> pairs separated by commas, with no space around
  \<^verbatim>\<open>=\<close>. The authorization of \<^verbatim>\<open>doRequest\<close> is this value for the key id of the client,
  the signed header names and the signature of the call.
\<close>

theorem authorizationHeader_layout:
  "authorizationHeader keyId headerNames sig
     = spec_authorization ''ACS3-HMAC-SHA256''
         [(''Credential'', keyId), (''SignedHeaders'', headerNames), (''Signature'', sig)]
   \<and> authorizationHeader keyId headerNames sig
     = ''ACS3-HMAC-SHA256'' @ '' '' @ ''Credential='' @ keyId @ '','' @ ''SignedHeaders='' @ headerNames
         @ '','' @ ''Signature='' @ sig
   \<and> authorization (prepare pf client method uri headers query payload timeoutMs timeString nonce)
     = authorizationHeader (accessKeyId client)
         (signed_names (prepare pf client method uri headers query payload timeoutMs timeString nonce))
         (signature (prepare pf client method uri headers query payload timeoutMs timeString nonce))"
  by (simp add: authorizationHeader_def spec_authorization_def prepare_def Let_def)

text \<open>
  C7, counterexample. A response with status 403 whose body is not JSON raises the
  \<^verbatim>\<open>SyntaxError\<close> of \<^verbatim>\<open>response.json()\<close>; a \<^verbatim>\<open>fetch\<close> that fails with a \<^verbatim>\<open>TypeError\<close> (no
  connection) raises that \<^verbatim>\<open>TypeError\<close>; a response with status 200 and the body \<^verbatim>\<open>{}\<close>, and
  one with status 404 and the body \<^verbatim>\<open>null\<close>, raise a \<^verbatim>\<open>TypeError\<close>. None is one of the four
  outcomes of the claim.
\<close>

theorem respond_other_failures:
  "respond (Response 403 (Inl ''SyntaxError'')) = Inl (PlatformError ''SyntaxError'')
   \<and> \<not> spec_outcome (respond (Response 403 (Inl ''SyntaxError'')))
   \<and> respond (Rejected ''TypeError'') = Inl (PlatformError ''TypeError'')
   \<and> \<not> spec_outcome (respond (Rejected ''TypeError''))
   \<and> respond (Response 200 (Inr (JObject []))) = Inl (PlatformError ''TypeError'')
   \<and> \<not> spec_outcome (respond (Response 200 (Inr (JObject []))))
   \<and> respond (Response 404 (Inr JNull)) = Inl (PlatformError ''TypeError'')
   \<and> \<not> spec_outcome (respond (Response 404 (Inr JNull)))"
  by (simp add: respond_Rejected respond_body_failed respond_below_400 respond_4xx spec_outcome_def
      present_def field_def)

text \<open>
  C7, as amended. Every call has exactly one of five outcomes, by what \<^verbatim>\<open>fetch\<close> gives.
  A result, exactly for a success: a status below 400 (the code draws no line at 300) and
  a JSON body in which \<^verbatim>\<open>AssumedRoleUser\<close> and \<^verbatim>\<open>Credentials\<close> are present; the result holds
  the members of the JSON. A \<^verbatim>\<open>ClientError\<close>, exactly for an error envelope and for a status
  error: for a status from 400 to 499 with a JSON body that is not \<^verbatim>\<open>null\<close>, its message is
  the text of the member \<^verbatim>\<open>Message\<close> (the string itself, the empty string when the member
  is missing, the digits of a number) and its request id, host id, code and
  recommendation are the members of the body; for a status of 500 or more it has the fixed
  message, the status as its code and no other field. The error \<^verbatim>\<open>request timeout\<close>, which
  is not a \<^verbatim>\<open>ClientError\<close>, exactly for a timeout. Any other failure is thrown to the
  caller as it is, and is an exception of the platform that is not a \<^verbatim>\<open>TimeoutError\<close>: the
  rejection of \<^verbatim>\<open>fetch\<close>, the failure to read the body below status 500, or the
  \<^verbatim>\<open>TypeError\<close> raised on a JSON body of neither shape.
\<close>

theorem respond_classification:
  "is_success r = (\<exists>v. respond r = Inr v)
   \<and> (is_error_envelope r \<or> is_status_error r) = (\<exists>e. respond r = Inl e \<and> is_ClientError e)
   \<and> is_timeout r = (respond r = Inl (PlainError ''request timeout''))
   \<and> is_other_failure r = (\<exists>n. n \<noteq> ''TimeoutError'' \<and> respond r = Inl (PlatformError n))
   \<and> length (filter (\<lambda>c. c r)
        [is_success, is_error_envelope, is_status_error, is_timeout, is_other_failure]) = 1
   \<and> (s2 < 400 \<and> field j ''AssumedRoleUser'' = Some u \<and> u \<noteq> JNull
        \<and> field j ''Credentials'' = Some c \<and> c \<noteq> JNull \<longrightarrow>
      respond (Response s2 (Inr j))
        = Inr \<lparr>requestId = field j ''RequestId'',
               assumedRoleId = field u ''AssumedRoleId'',
               arn = field u ''Arn'',
               securityToken = field c ''SecurityToken'',
               credentialsAccessKeyId = field c ''AccessKeyId'',
               credentialsAccessKeySecret = field c ''AccessKeySecret'',
               expiration = field c ''Expiration''\<rparr>)
   \<and> (400 \<le> s4 \<and> s4 < 500 \<and> j4 \<noteq> JNull \<and> message_text (field j4 ''Message'') = Inr m \<longrightarrow>
      respond (Response s4 (Inr j4))
        = Inl (ClientError m (field j4 ''RequestId'') (field j4 ''HostId'') (field j4 ''Code'')
                 (field j4 ''Recommend'')))
   \<and> message_text (Some (JString t)) = Inr t
   \<and> message_text None = Inr []
   \<and> message_text (Some (JNumber x)) = Inr (Number_toString x)
   \<and> (500 \<le> s5 \<longrightarrow>
      respond (Response s5 body)
        = Inl (ClientError ''response status code error'' None None
                 (Some (JString (decimal s5))) None))
   \<and> \<not> is_ClientError (PlainError ''request timeout'')
   \<and> (n \<noteq> ''TimeoutError'' \<longrightarrow> respond (Rejected n) = Inl (PlatformError n))
   \<and> (s3 < 500 \<and> n3 \<noteq> ''TimeoutError'' \<longrightarrow>
      respond (Response s3 (Inl n3)) = Inl (PlatformError n3))
   \<and> (is_other_failure (Response s6 (Inr j6)) \<longrightarrow>
      respond (Response s6 (Inr j6)) = Inl (PlatformError ''TypeError''))"
proof -
  have a: "is_success r = (\<exists>v. respond r = Inr v)"
    by (cases r rule: fetch_result_cases)
       (auto simp: is_success_def respond_Rejected respond_body_failed respond_5xx respond_parsed)
  have b: "(is_error_envelope r \<or> is_status_error r) = (\<exists>e. respond r = Inl e \<and> is_ClientError e)"
    by (cases r rule: fetch_result_cases)
       (auto simp: is_error_envelope_def is_status_error_def respond_Rejected respond_body_failed
          respond_5xx respond_parsed)
  have c: "is_timeout r = (respond r = Inl (PlainError ''request timeout''))"
    by (cases r rule: fetch_result_cases)
       (auto simp: is_timeout_def respond_Rejected respond_body_failed respond_5xx respond_parsed)
  have d: "is_other_failure r = (\<exists>n. n \<noteq> ''TimeoutError'' \<and> respond r = Inl (PlatformError n))"
    by (cases r rule: fetch_result_cases)
       (auto simp: is_other_failure_def respond_Rejected respond_body_failed respond_5xx
          respond_parsed)
  have e: "length (filter (\<lambda>c. c r)
        [is_success, is_error_envelope, is_status_error, is_timeout, is_other_failure]) = 1"
    by (cases r rule: fetch_result_cases)
       (auto simp: is_success_def is_error_envelope_def is_status_error_def is_timeout_def
          is_other_failure_def)
  have f: "s2 < 400 \<and> field j ''AssumedRoleUser'' = Some u \<and> u \<noteq> JNull
        \<and> field j ''Credentials'' = Some c \<and> c \<noteq> JNull \<longrightarrow>
      respond (Response s2 (Inr j))
        = Inr \<lparr>requestId = field j ''RequestId'',
               assumedRoleId = field u ''AssumedRoleId'',
               arn = field u ''Arn'',
               securityToken = field c ''SecurityToken'',
               credentialsAccessKeyId = field c ''AccessKeyId'',
               credentialsAccessKeySecret = field c ''AccessKeySecret'',
               expiration = field c ''Expiration''\<rparr>"
    by (simp add: respond_parsed present_def)
  have g: "400 \<le> s4 \<and> s4 < 500 \<and> j4 \<noteq> JNull \<and> message_text (field j4 ''Message'') = Inr m \<longrightarrow>
      respond (Response s4 (Inr j4))
        = Inl (ClientError m (field j4 ''RequestId'') (field j4 ''HostId'') (field j4 ''Code'')
                 (field j4 ''Recommend''))"
    by (simp add: respond_parsed has_text_def)
  have h: "message_text (Some (JString t)) = Inr t" "message_text None = Inr []"
      "message_text (Some (JNumber x)) = Inr (Number_toString x)"
    by (simp_all add: message_text_def)
  have i: "500 \<le> s5 \<longrightarrow>
      respond (Response s5 body)
        = Inl (ClientError ''response status code error'' None None
                 (Some (JString (decimal s5))) None)"
    by (simp add: respond_5xx)
  have k: "n \<noteq> ''TimeoutError'' \<longrightarrow> respond (Rejected n) = Inl (PlatformError n)"
      "s3 < 500 \<and> n3 \<noteq> ''TimeoutError'' \<longrightarrow>
         respond (Response s3 (Inl n3)) = Inl (PlatformError n3)"
    by (simp_all add: respond_Rejected respond_body_failed)
  have l: "is_other_failure (Response s6 (Inr j6)) \<longrightarrow>
      respond (Response s6 (Inr j6)) = Inl (PlatformError ''TypeError'')"
    by (auto simp: is_other_failure_def respond_parsed)
  show ?thesis
    using a b c d e f g h i k l by (simp only: is_ClientError.simps simp_thms)
qed

text \<open>C7, witness: one response or rejection for each case.\<close>

theorem respond_classification_witness:
  "respond (Response 200 (Inr (JObject
       [(''RequestId'', JString ''6894B13B''),
        (''AssumedRoleUser'', JObject [(''Arn'', JString ''acs:ram::1:role/r/s''),
                                       (''AssumedRoleId'', JString ''34458433:s'')]),
        (''Credentials'', JObject [(''SecurityToken'', JString ''tok''),
                                   (''AccessKeyId'', JString ''STS.L4aB''),
                                   (''AccessKeySecret'', JString ''wyLTSm''),
                                   (''Expiration'', JString ''2015-04-09T11:52:19Z'')])])))
     = Inr \<lparr>requestId = Some (JString ''6894B13B''),
            assumedRoleId = Some (JString ''34458433:s''),
            arn = Some (JString ''acs:ram::1:role/r/s''),
            securityToken = Some (JString ''tok''),
            credentialsAccessKeyId = Some (JString ''STS.L4aB''),
            credentialsAccessKeySecret = Some (JString ''wyLTSm''),
            expiration = Some (JString ''2015-04-09T11:52:19Z'')\<rparr>
   \<and> respond (Response 403 (Inr (JObject
       [(''RequestId'', JString ''9C1E''), (''HostId'', JString ''sts.aliyuncs.com''),
        (''Code'', JString ''NoPermission''), (''Message'', JString ''denied''),
        (''Recommend'', JString ''https://api.aliyun.com/troubleshoot'')])))
     = Inl (ClientError ''denied'' (Some (JString ''9C1E''))
              (Some (JString ''sts.aliyuncs.com'')) (Some (JString ''NoPermission''))
              (Some (JString ''https://api.aliyun.com/troubleshoot'')))
   \<and> respond (Response 503 (Inr JNull))
     = Inl (ClientError ''response status code error'' None None (Some (JString ''503'')) None)
   \<and> respond (Rejected ''TypeError'') = Inl (PlatformError ''TypeError'')
   \<and> respond (Response 403 (Inl ''SyntaxError'')) = Inl (PlatformError ''SyntaxError'')
   \<and> is_other_failure (Response 302 (Inr (JObject [])))
   \<and> respond (Response 302 (Inr (JObject []))) = Inl (PlatformError ''TypeError'')"
proof -
  let ?ok = "JObject
       [(''RequestId'', JString ''6894B13B''),
        (''AssumedRoleUser'', JObject [(''Arn'', JString ''acs:ram::1:role/r/s''),
                                       (''AssumedRoleId'', JString ''34458433:s'')]),
        (''Credentials'', JObject [(''SecurityToken'', JString ''tok''),
                                   (''AccessKeyId'', JString ''STS.L4aB''),
                                   (''AccessKeySecret'', JString ''wyLTSm''),
                                   (''Expiration'', JString ''2015-04-09T11:52:19Z'')])]"
  let ?err = "JObject
       [(''RequestId'', JString ''9C1E''), (''HostId'', JString ''sts.aliyuncs.com''),
        (''Code'', JString ''NoPermission''), (''Message'', JString ''denied''),
        (''Recommend'', JString ''https://api.aliyun.com/troubleshoot'')]"
  have o: "is_other_failure (Response 302 (Inr (JObject [])))"
    by (simp add: is_other_failure_def present_def field_def)
  show ?thesis
    using o respond_classification [of "Rejected []" 200 ?ok
        "JObject [(''Arn'', JString ''acs:ram::1:role/r/s''), (''AssumedRoleId'', JString ''34458433:s'')]"
        "JObject [(''SecurityToken'', JString ''tok''), (''AccessKeyId'', JString ''STS.L4aB''),
                  (''AccessKeySecret'', JString ''wyLTSm''), (''Expiration'', JString ''2015-04-09T11:52:19Z'')]"
        403 ?err "''denied''" "[]" "Number []" 503 "Inr JNull" "''TypeError''" 403 "''SyntaxError''" 302 "JObject []"]
    by (simp add: field_def message_text_def decimal.simps)
qed

text \<open>
  C8, counterexample. The header mapping \<^verbatim>\<open>{"X-Acs-Meta": "1", "x-acs-meta": "2"}\<close> has
  two names that differ in case only. Both become \<^verbatim>\<open>x-acs-meta\<close>, the comparison finds
  them equal and the stable sort keeps them in the order of iteration: the two orders of
  the same mapping give different canonical requests.
\<close>

theorem signing_depends_on_order:
  "distinct (map fst [(''X-Acs-Meta'', ''1''), (''x-acs-meta'', ''2'')])
   \<and> distinct (map fst [(''x-acs-meta'', ''2''), (''X-Acs-Meta'', ''1'')])
   \<and> set [(''X-Acs-Meta'', ''1''), (''x-acs-meta'', ''2'')]
     = set [(''x-acs-meta'', ''2''), (''X-Acs-Meta'', ''1'')]
   \<and> canonical_request (prepare root_locale (new_StsClient ''sts.aliyuncs.com'' ''id'' ''secret'') GET ''/''
        [(''X-Acs-Meta'', ''1''), (''x-acs-meta'', ''2'')] [] None None
        ''2024-01-01T00:00:00Z'' ''1704067200000'')
     \<noteq> canonical_request (prepare root_locale (new_StsClient ''sts.aliyuncs.com'' ''id'' ''secret'') GET ''/''
        [(''x-acs-meta'', ''2''), (''X-Acs-Meta'', ''1'')] [] None None
        ''2024-01-01T00:00:00Z'' ''1704067200000'')"
proof -
  let ?H = "''e3b0c44298fc1c149afbf4c8996fb92427ae41e4649b934ca495991b7852b855''"
  let ?c = "new_StsClient ''sts.aliyuncs.com'' ''id'' ''secret''"
  let ?A = "canonicalHeaders root_locale (set_property (mergedHeaders ?c ''2024-01-01T00:00:00Z'' ''1704067200000''
              [(''X-Acs-Meta'', ''1''), (''x-acs-meta'', ''2'')]) ''x-acs-content-sha256'' ?H)"
  let ?B = "canonicalHeaders root_locale (set_property (mergedHeaders ?c ''2024-01-01T00:00:00Z'' ''1704067200000''
              [(''x-acs-meta'', ''2''), (''X-Acs-Meta'', ''1'')]) ''x-acs-content-sha256'' ?H)"
  have a: "?A = [(''host'', ''sts.aliyuncs.com''), (''x-acs-content-sha256'', ?H),
                 (''x-acs-date'', ''2024-01-01T00:00:00Z''),
                 (''x-acs-meta'', ''1''), (''x-acs-meta'', ''2''),
                 (''x-acs-signature-nonce'', ''1704067200000''),
                 (''x-acs-version'', ''2015-04-01'')]"
    unfolding canonicalHeaders_decorated by code_simp
  have b: "?B = [(''host'', ''sts.aliyuncs.com''), (''x-acs-content-sha256'', ?H),
                 (''x-acs-date'', ''2024-01-01T00:00:00Z''),
                 (''x-acs-meta'', ''2''), (''x-acs-meta'', ''1''),
                 (''x-acs-signature-nonce'', ''1704067200000''),
                 (''x-acs-version'', ''2015-04-01'')]"
    unfolding canonicalHeaders_decorated by code_simp
  have n: "canonicalHeaderNameString ?A = canonicalHeaderNameString ?B"
    unfolding a b by (simp add: canonicalHeaderNameString_def)
  have s: "canonicalHeaderString ?A \<noteq> canonicalHeaderString ?B"
    unfolding a b by (simp add: canonicalHeaderString_def)
  have p: "payloadHashString (payloadString None) = ?H"
    by (simp add: payloadString_def payloadHashString_empty)
  have "canonical_request (prepare root_locale ?c GET ''/''
        [(''X-Acs-Meta'', ''1''), (''x-acs-meta'', ''2'')] [] None None
        ''2024-01-01T00:00:00Z'' ''1704067200000'')
     \<noteq> canonical_request (prepare root_locale ?c GET ''/''
        [(''x-acs-meta'', ''2''), (''X-Acs-Meta'', ''1'')] [] None None
        ''2024-01-01T00:00:00Z'' ''1704067200000'')"
    unfolding canonical_request_prepare p n
    using s by (simp only: canonicalRequest_headerString_inject not_False_eq_True)
  then show ?thesis by (simp add: insert_commute)
qed

text \<open>
  C8, as amended. On every platform, for the same client, method, path, body, time string
  and nonce, and for header and query mappings with the same entries in any two orders of
  iteration, the canonical request and the authorization value are the same, provided
  that no two of the caller's header names that take part in the signature compare equal
  under \<^verbatim>\<open>localeCompare\<close> after lower-casing (have the same sort key: none differ in case
  only) and no two query keys compare equal under \<^verbatim>\<open>localeCompare\<close>.
\<close>

theorem signing_order_independent:
  assumes h: "distinct (map fst headers)" "distinct (map fst headers')" "set headers = set headers'"
      and q: "distinct (map fst query)" "distinct (map fst query')" "set query = set query'"
      and hi: "inj_on (\<lambda>k. sortKey pf (toLowerCase pf k))
                 (set (filter (signed_name pf) (map fst headers)))"
      and qi: "inj_on (sortKey pf) (set (map fst query))"
  shows "canonical_request (prepare pf client method uri headers query payload timeoutMs timeString nonce)
       = canonical_request (prepare pf client method uri headers' query' payload timeoutMs timeString nonce)
     \<and> authorization (prepare pf client method uri headers query payload timeoutMs timeString nonce)
       = authorization (prepare pf client method uri headers' query' payload timeoutMs timeString nonce)"
proof -
  let ?H = "payloadHashString (payloadString payload)"
  let ?A = "set_property (mergedHeaders client timeString nonce headers) ''x-acs-content-sha256'' ?H"
  let ?B = "set_property (mergedHeaders client timeString nonce headers') ''x-acs-content-sha256'' ?H"
  have ch: "canonicalHeaders pf ?A = canonicalHeaders pf ?B"
    using h hi by (rule canonicalHeaders_order)
  have cq: "canonicalQueryString pf query = canonicalQueryString pf query'"
    using q qi by (rule canonicalQueryString_unique)
  have cr: "canonical_request (prepare pf client method uri headers query payload timeoutMs timeString nonce)
       = canonical_request (prepare pf client method uri headers' query' payload timeoutMs timeString nonce)"
    by (simp only: canonical_request_prepare ch cq)
  have "authorization (prepare pf client method uri headers query payload timeoutMs timeString nonce)
       = authorization (prepare pf client method uri headers' query' payload timeoutMs timeString nonce)"
    by (simp only: authorization_prepare ch cr)
  with cr show ?thesis by simp
qed

text \<open>
  C8, witness: three headers, one of them \<^verbatim>\<open>Host\<close> beside the injected \<^verbatim>\<open>host\<close>, and two
  query parameters, in two orders.
\<close>

theorem signing_order_independent_witness:
  "canonical_request (prepare root_locale (new_StsClient ''sts.aliyuncs.com'' ''id'' ''secret'') POST ''/''
        [(''x-acs-action'', ''AssumeRole''), (''X-Acs-Meta'', ''1''), (''Host'', ''example.org'')]
        [(''b'', Some ''2''), (''a'', Some ''1'')] None None
        ''2024-01-01T00:00:00Z'' ''1704067200000'')
     = canonical_request (prepare root_locale (new_StsClient ''sts.aliyuncs.com'' ''id'' ''secret'') POST ''/''
        [(''Host'', ''example.org''), (''X-Acs-Meta'', ''1''), (''x-acs-action'', ''AssumeRole'')]
        [(''a'', Some ''1''), (''b'', Some ''2'')] None None
        ''2024-01-01T00:00:00Z'' ''1704067200000'')
   \<and> authorization (prepare root_locale (new_StsClient ''sts.aliyuncs.com'' ''id'' ''secret'') POST ''/''
        [(''x-acs-action'', ''AssumeRole''), (''X-Acs-Meta'', ''1''), (''Host'', ''example.org'')]
        [(''b'', Some ''2''), (''a'', Some ''1'')] None None
        ''2024-01-01T00:00:00Z'' ''1704067200000'')
     = authorization (prepare root_locale (new_StsClient ''sts.aliyuncs.com'' ''id'' ''secret'') POST ''/''
        [(''Host'', ''example.org''), (''X-Acs-Meta'', ''1''), (''x-acs-action'', ''AssumeRole'')]
        [(''a'', Some ''1''), (''b'', Some ''2'')] None None
        ''2024-01-01T00:00:00Z'' ''1704067200000'')"
proof (rule signing_order_independent)
  show "distinct (map fst [(''x-acs-action'', ''AssumeRole''), (''X-Acs-Meta'', ''1''),
                           (''Host'', ''example.org'')])" by simp
  show "distinct (map fst [(''Host'', ''example.org''), (''X-Acs-Meta'', ''1''),
                           (''x-acs-action'', ''AssumeRole'')])" by simp
  show "set [(''x-acs-action'', ''AssumeRole''), (''X-Acs-Meta'', ''1''), (''Host'', ''example.org'')]
      = set [(''Host'', ''example.org''), (''X-Acs-Meta'', ''1''), (''x-acs-action'', ''AssumeRole'')]"
    by (simp add: insert_commute)
  show "distinct (map fst [(''b'', Some ''2''), (''a'', Some ''1'')])" by simp
  show "distinct (map fst [(''a'', Some ''1''), (''b'', Some ''2'')])" by simp
  show "set [(''b'', Some ''2''), (''a'', Some ''1'')] = set [(''a'', Some ''1''), (''b'', Some ''2'')]"
    by (simp add: insert_commute)
  show "inj_on (\<lambda>k. sortKey root_locale (toLowerCase root_locale k))
          (set (filter (signed_name root_locale)
                 (map fst [(''x-acs-action'', ''AssumeRole''), (''X-Acs-Meta'', ''1''),
                           (''Host'', ''example.org'')])))"
    by (rule inj_on_distinct_map) code_simp
  show "inj_on (sortKey root_locale) (set (map fst [(''b'', Some ''2''), (''a'', Some ''1'')]))"
    by (rule inj_on_distinct_map) code_simp
qed

text \<open>
  C9. For every request whose policy is not \<^verbatim>\<open>null\<close> (is truthy, as every object is), the
  form that \<^verbatim>\<open>assumeRole\<close> builds holds under the key \<^verbatim>\<open>Policy\<close> the text \<^verbatim>\<open>JSON.stringify\<close>
  gives for the policy, whatever the policy holds: nothing is checked. For the policy of
  the repository's test this is the text
  \<^verbatim>\<open>{"Version":"1","Statement":[{"Action":["oss:*"],"Effect":"Allow","Resource":["acs:oss:*:*:xxxxxx"]}]}\<close>,
  and a second example shows the escapes. For a \<^verbatim>\<open>null\<close> policy the form has no key
  \<^verbatim>\<open>Policy\<close>. This form is the payload \<^verbatim>\<open>assumeRole\<close> passes to \<^verbatim>\<open>doRequest\<close>, whose body is
  the form with its keys and values percent-encoded.
\<close>

theorem assumeRole_policy_payload:
  "(truthy (policy config) \<longrightarrow>
      map_of (assumeRole_payload config) ''Policy'' = Some (Some (JSON_stringify (policy config)))
      \<and> (''Policy'', Some (JSON_stringify (policy config))) \<in> set (assumeRole_payload config))
   \<and> (\<not> truthy (policy config) \<longrightarrow> map_of (assumeRole_payload config) ''Policy'' = None)
   \<and> truthy (JObject ps)
   \<and> \<not> truthy JNull
   \<and> JSON_stringify
        (JObject [(''Version'', JString ''1''),
                  (''Statement'', JArray [JObject [(''Action'', JArray [JString ''oss:*'']),
                                                   (''Effect'', JString ''Allow''),
                                                   (''Resource'', JArray [JString ''acs:oss:*:*:xxxxxx''])]])])
     = quoted ''{`Version`:`1`,`Statement`:[{`Action`:[`oss:*`],`Effect`:`Allow`,`Resource`:[`acs:oss:*:*:xxxxxx`]}]}''
   \<and> JSON_stringify
        (JObject [(''a'' @ [CHR 0x22] @ ''b'', JArray [JNull, JBool True, JBool False, JNumber (Number ''1.5'')]),
                  (''c'', JString ([CHR 0x5C, CHR 0x0A, CHR 0x01, CHR 0xC3, CHR 0xA9] @ ''/'')),
                  (''d'', JObject [])])
     = quoted ''{`a'' @ [CHR 0x5C] @ quoted ''`b`:[null,true,false,1.5],`c`:`''
         @ [CHR 0x5C, CHR 0x5C, CHR 0x5C, CHR ''n'', CHR 0x5C] @ ''u0001'' @ [CHR 0xC3, CHR 0xA9]
         @ quoted ''/`,`d`:{}}''
   \<and> assumeRole_payload (new_AssumeRoleRequest ''acs:ram::123456:role/demo'' ''aliyun-sts-deno-sdk''
        (JObject [(''Version'', JString ''1''), (''Statement'', JArray [])]))
     = [(''DurationSeconds'', Some ''3600''),
        (''RoleArn'', Some ''acs:ram::123456:role/demo''),
        (''RoleSessionName'', Some ''aliyun-sts-deno-sdk''),
        (''Policy'', Some (quoted ''{`Version`:`1`,`Statement`:[]}''))]
   \<and> payloadString (Some (assumeRole_payload
        (new_AssumeRoleRequest ''acs:ram::123456:role/demo'' ''aliyun-sts-deno-sdk''
           (JObject [(''Version'', JString ''1''), (''Statement'', JArray [])]))))
     = ''DurationSeconds=3600&RoleArn=acs%3Aram%3A%3A123456%3Arole%2Fdemo''
         @ ''&RoleSessionName=aliyun-sts-deno-sdk''
         @ ''&Policy=%7B%22Version%22%3A%221%22%2C%22Statement%22%3A%5B%5D%7D''
   \<and> assumeRole pf fetch client config timeoutMs isoText now
     = doRequest pf fetch client POST ''/'' [(''x-acs-action'', ''AssumeRole'')] []
         (Some (assumeRole_payload config)) timeoutMs isoText now
   \<and> init_body (prepare pf client POST ''/'' [(''x-acs-action'', ''AssumeRole'')] []
        (Some (assumeRole_payload config)) timeoutMs timeString nonce)
     = Some (TextEncoder_encode (payloadString (Some (assumeRole_payload config))))"
proof -
  have a: "truthy (policy config) \<longrightarrow>
      map_of (assumeRole_payload config) ''Policy'' = Some (Some (JSON_stringify (policy config)))"
    by (cases "externalId config")
       (simp_all add: assumeRole_payload_def Let_def map_of_set_property)
  have b: "truthy (policy config) \<longrightarrow>
      (''Policy'', Some (JSON_stringify (policy config))) \<in> set (assumeRole_payload config)"
    using a by (auto dest: map_of_SomeD)
  have c: "\<not> truthy (policy config) \<longrightarrow> map_of (assumeRole_payload config) ''Policy'' = None"
    by (cases "externalId config")
       (simp_all add: assumeRole_payload_def Let_def map_of_set_property)
  have d: "assumeRole pf fetch client config timeoutMs isoText now
     = doRequest pf fetch client POST ''/'' [(''x-acs-action'', ''AssumeRole'')] []
         (Some (assumeRole_payload config)) timeoutMs isoText now"
    by (simp add: assumeRole_def)
  obtain rest where r: "assumeRole_payload config
     = (''DurationSeconds'', Some (Number_toString (durationSeconds config))) # rest"
    using assumeRole_payload_first by blast
  have "payloadString (Some (assumeRole_payload config)) \<noteq> []"
    by (simp add: payloadString_def r join_Cons_nonempty form_pair_nonempty)
  then have e: "init_body (prepare pf client POST ''/'' [(''x-acs-action'', ''AssumeRole'')] []
        (Some (assumeRole_payload config)) timeoutMs timeString nonce)
     = Some (TextEncoder_encode (payloadString (Some (assumeRole_payload config))))"
    by (simp add: init_body_prepare)
  have j1: "JSON_stringify
        (JObject [(''Version'', JString ''1''),
                  (''Statement'', JArray [JObject [(''Action'', JArray [JString ''oss:*'']),
                                                   (''Effect'', JString ''Allow''),
                                                   (''Resource'', JArray [JString ''acs:oss:*:*:xxxxxx''])]])])
     = quoted ''{`Version`:`1`,`Statement`:[{`Action`:[`oss:*`],`Effect`:`Allow`,`Resource`:[`acs:oss:*:*:xxxxxx`]}]}''"
    by code_simp
  have j2: "JSON_stringify
        (JObject [(''a'' @ [CHR 0x22] @ ''b'', JArray [JNull, JBool True, JBool False, JNumber (Number ''1.5'')]),
                  (''c'', JString ([CHR 0x5C, CHR 0x0A, CHR 0x01, CHR 0xC3, CHR 0xA9] @ ''/'')),
                  (''d'', JObject [])])
     = quoted ''{`a'' @ [CHR 0x5C] @ quoted ''`b`:[null,true,false,1.5],`c`:`''
         @ [CHR 0x5C, CHR 0x5C, CHR 0x5C, CHR ''n'', CHR 0x5C] @ ''u0001'' @ [CHR 0xC3, CHR 0xA9]
         @ quoted ''/`,`d`:{}}''"
    by code_simp
  have p1: "assumeRole_payload (new_AssumeRoleRequest ''acs:ram::123456:role/demo'' ''aliyun-sts-deno-sdk''
        (JObject [(''Version'', JString ''1''), (''Statement'', JArray [])]))
     = [(''DurationSeconds'', Some ''3600''),
        (''RoleArn'', Some ''acs:ram::123456:role/demo''),
        (''RoleSessionName'', Some ''aliyun-sts-deno-sdk''),
        (''Policy'', Some (quoted ''{`Version`:`1`,`Statement`:[]}''))]"
    by code_simp
  have p2: "payloadString (Some (assumeRole_payload
        (new_AssumeRoleRequest ''acs:ram::123456:role/demo'' ''aliyun-sts-deno-sdk''
           (JObject [(''Version'', JString ''1''), (''Statement'', JArray [])]))))
     = ''DurationSeconds=3600&RoleArn=acs%3Aram%3A%3A123456%3Arole%2Fdemo''
         @ ''&RoleSessionName=aliyun-sts-deno-sdk''
         @ ''&Policy=%7B%22Version%22%3A%221%22%2C%22Statement%22%3A%5B%5D%7D''"
    by code_simp
  show ?thesis using a b c d e j1 j2 p1 p2 truthy_cases by blast
qed

text \<open>C9, witness: the policy of the repository's test, and a request without policy.\<close>

theorem assumeRole_policy_payload_witness:
  "map_of (assumeRole_payload (new_AssumeRoleRequest ''acs:ram::123456:role/demo'' ''aliyun-sts-deno-sdk''
       (JObject [(''Version'', JString ''1''),
                 (''Statement'', JArray [JObject [(''Action'', JArray [JString ''oss:*'']),
                                                  (''Effect'', JString ''Allow''),
                                                  (''Resource'', JArray [JString ''acs:oss:*:*:xxxxxx''])]])])))
     ''Policy''
     = Some (Some (quoted
         ''{`Version`:`1`,`Statement`:[{`Action`:[`oss:*`],`Effect`:`Allow`,`Resource`:[`acs:oss:*:*:xxxxxx`]}]}''))
   \<and> map_of (assumeRole_payload (new_AssumeRoleRequest ''acs:ram::123456:role/demo''
       ''aliyun-sts-deno-sdk'' JNull)) ''Policy'' = None"
  using assumeRole_policy_payload [of "new_AssumeRoleRequest ''acs:ram::123456:role/demo'' ''aliyun-sts-deno-sdk''
       (JObject [(''Version'', JString ''1''),
                 (''Statement'', JArray [JObject [(''Action'', JArray [JString ''oss:*'']),
                                                  (''Effect'', JString ''Allow''),
                                                  (''Resource'', JArray [JString ''acs:oss:*:*:xxxxxx''])]])])"
      "[]" root_locale "\<lambda>p. Rejected []" "new_StsClient [] [] []" None "[]" 0 "[]" "[]"]
    assumeRole_policy_payload [of "new_AssumeRoleRequest ''acs:ram::123456:role/demo'' ''aliyun-sts-deno-sdk'' JNull"
      "[]" root_locale "\<lambda>p. Rejected []" "new_StsClient [] [] []" None "[]" 0 "[]" "[]"]
  by (simp add: new_AssumeRoleRequest_def)

text \<open>
  C10. For every header mapping of the caller (an object: each name once), a header the
  caller gives under the name \<^verbatim>\<open>host\<close>, \<^verbatim>\<open>x-acs-date\<close>, \<^verbatim>\<open>x-acs-signature-nonce\<close> or under
  the name of a default of the client is sent with the caller's value. The headers
  \<^verbatim>\<open>x-acs-content-sha256\<close> and \<^verbatim>\<open>Authorization\<close> are assigned after the merge: the outgoing
  set holds the computed payload hash and authorization value under these names,
  whatever the caller gave.
\<close>

theorem outgoing_headers_override:
  "(distinct (map fst headers)
      \<and> name \<in> set [''host'', ''x-acs-date'', ''x-acs-signature-nonce'',
                      ''x-sdk-client'', ''x-acs-version'', ''Accept'']
      \<and> map_of headers name = Some v \<longrightarrow>
    map_of (init_headers (prepare pf client method uri headers query payload timeoutMs timeString nonce))
      name = Some v)
   \<and> map_of (init_headers (prepare pf client method uri headers query payload timeoutMs timeString nonce))
        ''x-acs-content-sha256''
        = Some (payload_hash (prepare pf client method uri headers query payload timeoutMs timeString nonce))
   \<and> map_of (init_headers (prepare pf client method uri headers query payload timeoutMs timeString nonce))
        ''Authorization''
        = Some (authorization (prepare pf client method uri headers query payload timeoutMs timeString nonce))"
  by (auto simp: map_of_init_headers map_of_mergedHeaders)

text \<open>
  C10, witness: the caller gives \<^verbatim>\<open>host\<close>, \<^verbatim>\<open>Authorization\<close> and \<^verbatim>\<open>x-acs-content-sha256\<close>;
  only the first is kept.
\<close>

theorem outgoing_headers_override_witness:
  "map_of (init_headers (prepare root_locale (new_StsClient ''sts.aliyuncs.com'' ''id'' ''secret'') POST ''/''
        [(''host'', ''example.org''), (''Authorization'', ''forged''), (''x-acs-content-sha256'', ''00'')]
        [] None None ''2024-01-01T00:00:00Z'' ''1704067200000'')) ''host''
     = Some ''example.org''
   \<and> map_of (init_headers (prepare root_locale (new_StsClient ''sts.aliyuncs.com'' ''id'' ''secret'') POST ''/''
        [(''host'', ''example.org''), (''Authorization'', ''forged''), (''x-acs-content-sha256'', ''00'')]
        [] None None ''2024-01-01T00:00:00Z'' ''1704067200000'')) ''x-acs-content-sha256''
     = Some (payload_hash (prepare root_locale (new_StsClient ''sts.aliyuncs.com'' ''id'' ''secret'') POST ''/''
        [(''host'', ''example.org''), (''Authorization'', ''forged''), (''x-acs-content-sha256'', ''00'')]
        [] None None ''2024-01-01T00:00:00Z'' ''1704067200000''))"
  using outgoing_headers_override [of "[(''host'', ''example.org''), (''Authorization'', ''forged''), (''x-acs-content-sha256'', ''00'')]"
      "''host''" "''example.org''" root_locale "new_StsClient ''sts.aliyuncs.com'' ''id'' ''secret''" POST "''/''"
      "[]" None None "''2024-01-01T00:00:00Z''" "''1704067200000''"]
  by simp

end
